theory Spec2Isabelle
  imports Main "HOL-Library.Word" "HOL-Library.Sublist" "HOL-Library.Multiset"
begin

text \<open>
  Two desktop tools, \<open>incity_generator.py\<close> and \<open>lyon_generator.py\<close>, ask an image
  generation service for variations of a reference picture: a button starts a thread
  that composes a prompt, calls the service and saves the returned image. This theory
  embeds the dispatch code, the button catalog of the Incity tool and the background
  task of both tools, and proves what they do to the log, the dialogs, the started
  threads, the submitted requests and the file system.
\<close>

section \<open>Python values\<close>

text \<open>
  A Python \<open>str\<close> is a sequence of Unicode code points, a \<open>bytes\<close> object a sequence
  of octets. ASCII literals of the source are written \<open>py ''...''\<close>; any other character
  of a literal is given by its code point.
\<close>

type_synonym pystr = "nat list"
type_synonym bytes = "8 word list"

definition py :: "string \<Rightarrow> pystr" where
  "py s = map of_char s"

text \<open>
  \<open>str.strip()\<close> without argument removes leading and trailing whitespace; the
  characters CPython counts as whitespace are listed in \<open>py_isspace\<close>.
\<close>

definition py_isspace :: "nat \<Rightarrow> bool" where
  "py_isspace c \<longleftrightarrow>
     (0x09 \<le> c \<and> c \<le> 0x0D) \<or> (0x1C \<le> c \<and> c \<le> 0x20) \<or> c = 0x85 \<or> c = 0xA0
     \<or> c = 0x1680 \<or> (0x2000 \<le> c \<and> c \<le> 0x200A) \<or> c = 0x2028 \<or> c = 0x2029
     \<or> c = 0x202F \<or> c = 0x205F \<or> c = 0x3000"

definition strip :: "pystr \<Rightarrow> pystr" where
  "strip s = rev (dropWhile py_isspace (rev (dropWhile py_isspace s)))"

text \<open>\<open>os.path.join\<close> of two components (POSIX): an absolute second component wins.\<close>

definition path_join :: "pystr \<Rightarrow> pystr \<Rightarrow> pystr" where
  "path_join a b =
     (if b \<noteq> [] \<and> hd b = 0x2F then b
      else if a = [] \<or> last a = 0x2F then a @ b
      else a @ [0x2F] @ b)"

section \<open>The external collaborators\<close>

text \<open>
  What the generation service returns. A response has \<open>parts\<close> (possibly \<open>None\<close>);
  a part may carry \<open>inline_data\<close>, whose \<open>data\<close> is a \<open>str\<close> (base64 text), a
  \<open>bytes\<close> object, or neither (\<open>NoneData\<close>). \<open>as_image\<close> says what the convenience
  accessor of the part does: the attribute is missing (\<open>NoAttr\<close>), calling it or saving
  its result raises (\<open>AsImageRaises\<close>), or it yields an image whose \<open>save\<close> writes the
  given bytes (\<open>AsImage\<close>).
\<close>

datatype blob_data = Str pystr | Bytes bytes | NoneData

datatype helper = NoAttr | AsImageRaises | AsImage bytes

record part =
  inline_data :: "blob_data option"
  as_image :: helper

record response =
  parts :: "part list option"

record request =
  model :: pystr
  contents_prompt :: pystr
  contents_image :: "bytes option"
  aspect_ratio :: pystr
  image_size :: pystr

text \<open>
  The behaviour of the libraries the applications call, as parameters: the client
  constructor (\<open>Some e\<close>: raises \<open>e\<close>), the generation call (\<open>Inl e\<close>: raises \<open>e\<close>),
  \<open>base64.b64decode\<close>, and for each path whether \<open>os.makedirs\<close>, \<open>open(path, "wb")\<close>
  and \<open>f.write\<close> raise there. An exception is represented by its message.
\<close>

record env =
  Client :: "pystr \<Rightarrow> pystr option"
  generate_content :: "request \<Rightarrow> pystr + response"
  b64decode :: "pystr \<Rightarrow> pystr + bytes"
  makedirs_error :: "pystr \<Rightarrow> pystr option"
  open_error :: "pystr \<Rightarrow> pystr option"
  write_error :: "pystr \<Rightarrow> pystr option"

section \<open>The application state and its surroundings\<close>

text \<open>
  The fields of the application object that the dispatch and task code read or write,
  together with what the code does to the outside: the error dialogs shown, the
  threads started (with the arguments of their target \<open>generate_task\<close>), the requests
  submitted to the generation service, what was printed, and the file system (current
  directory, existing directories, files with their contents).
\<close>

record world =
  reference_image_path :: "pystr option"
  pil_image :: "bytes option"
  api_entry :: pystr
  log_box :: "pystr list"
  dialogs :: "(pystr \<times> pystr) list"
  threads :: "(pystr \<times> pystr) list"
  requests :: "request list"
  stdout :: "response list"
  cwd :: pystr
  dirs :: "pystr set"
  files :: "pystr \<rightharpoonup> bytes"

datatype outcome = Returned | Raised pystr

text \<open>\<open>not x\<close> for an optional string: \<open>None\<close> and the empty string are falsy.\<close>

definition falsy :: "pystr option \<Rightarrow> bool" where
  "falsy p = (case p of None \<Rightarrow> True | Some s \<Rightarrow> s = [])"

definition log :: "pystr \<Rightarrow> world \<Rightarrow> world" where
  "log message w = w\<lparr>log_box := log_box w @ [py ''> '' @ message @ [0xA]]\<rparr>"

definition showerror :: "pystr \<Rightarrow> pystr \<Rightarrow> world \<Rightarrow> world" where
  "showerror title message w = w\<lparr>dialogs := dialogs w @ [(title, message)]\<rparr>"

definition start_thread :: "pystr \<Rightarrow> pystr \<Rightarrow> world \<Rightarrow> world" where
  "start_thread filename prompt_add w = w\<lparr>threads := threads w @ [(filename, prompt_add)]\<rparr>"

text \<open>\<open>os.makedirs(output_dir, exist_ok=True)\<close>: raises, or the directory exists afterwards.\<close>

definition makedirs :: "env \<Rightarrow> pystr \<Rightarrow> world \<Rightarrow> pystr + world" where
  "makedirs env output_dir w =
     (case makedirs_error env output_dir of
        Some e \<Rightarrow> Inl e
      | None \<Rightarrow> Inr (w\<lparr>dirs := insert output_dir (dirs w)\<rparr>))"

text \<open>
  \<open>with open(final_path, "wb") as f: f.write(img_data)\<close>. Opening truncates the file;
  writing something that is not bytes-like (\<open>None\<close> here) raises \<open>TypeError\<close>. The result
  is the exception raised, if any, and the world at that moment.
\<close>

definition write_file :: "env \<Rightarrow> pystr \<Rightarrow> bytes option \<Rightarrow> world \<Rightarrow> pystr option \<times> world" where
  "write_file env final_path img_data w =
     (case open_error env final_path of
        Some e \<Rightarrow> (Some e, w)
      | None \<Rightarrow>
          (let w1 = w\<lparr>files := (files w)(final_path \<mapsto> [])\<rparr> in
           case img_data of
             None \<Rightarrow> (Some (py ''a bytes-like object is required''), w1)
           | Some d \<Rightarrow>
               (case write_error env final_path of
                  Some e \<Rightarrow> (Some e, w1)
                | None \<Rightarrow> (None, w1\<lparr>files := (files w1)(final_path \<mapsto> d)\<rparr>))))"

section \<open>The background task\<close>

text \<open>
  The attempt through the convenience accessor (the inner \<open>try\<close> with its bare
  \<open>except: pass\<close>): \<open>True\<close> when the image was saved, which sets \<open>image_saved\<close> and
  leaves the loop; \<open>False\<close> when the attribute is missing or anything raised.
\<close>

definition try_as_image :: "env \<Rightarrow> pystr \<Rightarrow> part \<Rightarrow> world \<Rightarrow> bool \<times> world" where
  "try_as_image env final_path p w =
     (case as_image p of
        NoAttr \<Rightarrow> (False, w)
      | AsImageRaises \<Rightarrow> (False, w)
      | AsImage img \<Rightarrow>
          (case write_file env final_path (Some img) w of
             (Some e, w1) \<Rightarrow> (False, w1)
           | (None, w1) \<Rightarrow> (True, w1)))"

text \<open>The raw save of the fallback: decode a \<open>str\<close>, keep anything else, write.\<close>

definition raw_save :: "env \<Rightarrow> pystr \<Rightarrow> blob_data \<Rightarrow> world \<Rightarrow> pystr option \<times> world" where
  "raw_save env final_path img_bytes w =
     (case img_bytes of
        Str s \<Rightarrow>
          (case b64decode env s of
             Inl e \<Rightarrow> (Some e, w)
           | Inr img_data \<Rightarrow> write_file env final_path (Some img_data) w)
      | Bytes b \<Rightarrow> write_file env final_path (Some b) w
      | NoneData \<Rightarrow> write_file env final_path None w)"

text \<open>
  The loop over \<open>response.parts\<close>, with the flag \<open>image_saved\<close>. The result is the
  exception that left the loop (\<open>Inl\<close>) or the final flag (\<open>Inr\<close>), and the world.
\<close>

fun save_parts :: "env \<Rightarrow> pystr \<Rightarrow> part list \<Rightarrow> bool \<Rightarrow> world \<Rightarrow> (pystr + bool) \<times> world" where
  "save_parts env final_path [] image_saved w = (Inr image_saved, w)"
| "save_parts env final_path (p # ps) image_saved w =
     (case inline_data p of
        None \<Rightarrow> save_parts env final_path ps image_saved w
      | Some img_bytes \<Rightarrow>
          (case try_as_image env final_path p w of
             (True, w1) \<Rightarrow> (Inr True, w1)
           | (False, w1) \<Rightarrow>
               if \<not> image_saved then
                 (case raw_save env final_path img_bytes w1 of
                    (Some e, w2) \<Rightarrow> (Inl e, w2)
                  | (None, w2) \<Rightarrow> save_parts env final_path ps True w2)
               else save_parts env final_path ps image_saved w1))"

text \<open>\<open>if response.parts: for part in response.parts: ...\<close>\<close>

definition save_response :: "env \<Rightarrow> pystr \<Rightarrow> response \<Rightarrow> world \<Rightarrow> (pystr + bool) \<times> world" where
  "save_response env final_path resp w =
     (case parts resp of
        None \<Rightarrow> (Inr False, w)
      | Some ps \<Rightarrow> save_parts env final_path ps False w)"

subsection \<open>IncityGeneratorApp.generate_task\<close>

definition incity_base_prompt :: "pystr \<Rightarrow> pystr" where
  "incity_base_prompt prompt_details =
     py ''Using the provided image of the Incity tower in Lyon, modify ONLY the atmosphere and lighting. ''
     @ prompt_details @ py ''. ''
     @ py ''CRITICAL: Keep the EXACT same tower geometry, proportions, camera angle, and claymorphism 3D style. ''
     @ py ''The tower structure, windows pattern, and architectural details must remain IDENTICAL. ''
     @ py ''Only change: sky color, lighting direction, weather effects, and LED colors on the tower facade.''"

definition incity_request :: "pystr \<Rightarrow> world \<Rightarrow> request" where
  "incity_request base_prompt w =
     \<lparr>model = py ''gemini-3-pro-image-preview'', contents_prompt = base_prompt,
      contents_image = pil_image w, aspect_ratio = py ''1:1'', image_size = py ''2K''\<rparr>"

text \<open>The body of the outer \<open>try\<close>; \<open>Some e\<close> is the exception that reaches its handler.\<close>

definition incity_call_and_save ::
    "env \<Rightarrow> pystr \<Rightarrow> pystr \<Rightarrow> pystr \<Rightarrow> world \<Rightarrow> pystr option \<times> world" where
  "incity_call_and_save env filename base_prompt final_path w =
     (let w1 = w\<lparr>requests := requests w @ [incity_request base_prompt w]\<rparr> in
      case generate_content env (incity_request base_prompt w) of
        Inl e \<Rightarrow> (Some e, w1)
      | Inr resp \<Rightarrow>
          (case save_response env final_path resp w1 of
             (Inl e, w2) \<Rightarrow> (Some e, w2)
           | (Inr image_saved, w2) \<Rightarrow>
               if image_saved then (None, log (py ''OK: '' @ filename) w2)
               else (None, (log (py ''Pas d'image retourn'' @ [0xE9] @ py ''e pour '' @ filename) w2)
                             \<lparr>stdout := stdout w2 @ [resp]\<rparr>)))"

definition incity_generate_task :: "env \<Rightarrow> pystr \<Rightarrow> pystr \<Rightarrow> world \<Rightarrow> outcome \<times> world" where
  "incity_generate_task env filename prompt_details w =
     (let api_key = strip (api_entry w) in
      case Client env api_key of
        Some e \<Rightarrow> (Returned, log (py ''Erreur Client: '' @ e) w)
      | None \<Rightarrow>
          (let base_prompt = incity_base_prompt prompt_details;
               w1 = log (py ''G'' @ [0xE9] @ py ''n'' @ [0xE9] @ py ''ration: '' @ filename @ py ''...'') w;
               output_dir = path_join (cwd w1) (py ''output_incity'')
           in case makedirs env output_dir w1 of
                Inl e \<Rightarrow> (Raised e, w1)
              | Inr w2 \<Rightarrow>
                  (let final_path = path_join output_dir filename in
                   case incity_call_and_save env filename base_prompt final_path w2 of
                     (Some e, w3) \<Rightarrow> (Returned, log (py ''ERREUR: '' @ e) w3)
                   | (None, w3) \<Rightarrow> (Returned, w3))))"

subsection \<open>LyonGeminiV3App.generate_task\<close>

definition lyon_base_prompt :: "pystr \<Rightarrow> pystr" where
  "lyon_base_prompt prompt_details =
     py ''Using the provided image of Lyon city, modify the scene to match this weather condition: ''
     @ prompt_details @ py ''. ''
     @ py ''Keep the exact same buildings geometry, camera angle, and claymorphism style. ''
     @ py ''Only change the lighting, sky, ground texture, and foliage colors.''"

definition lyon_request :: "pystr \<Rightarrow> world \<Rightarrow> request" where
  "lyon_request base_prompt w =
     \<lparr>model = py ''gemini-3-pro-image-preview'', contents_prompt = base_prompt,
      contents_image = pil_image w, aspect_ratio = py ''16:9'', image_size = py ''2K''\<rparr>"

definition lyon_call_and_save ::
    "env \<Rightarrow> pystr \<Rightarrow> pystr \<Rightarrow> pystr \<Rightarrow> world \<Rightarrow> pystr option \<times> world" where
  "lyon_call_and_save env filename base_prompt final_path w =
     (let w1 = w\<lparr>requests := requests w @ [lyon_request base_prompt w]\<rparr> in
      case generate_content env (lyon_request base_prompt w) of
        Inl e \<Rightarrow> (Some e, w1)
      | Inr resp \<Rightarrow>
          (case save_response env final_path resp w1 of
             (Inl e, w2) \<Rightarrow> (Some e, w2)
           | (Inr image_saved, w2) \<Rightarrow>
               if image_saved then
                 (None, log ([0x2705] @ py '' SUCC'' @ [0xC8] @ py ''S : '' @ filename
                             @ py '' sauvegard'' @ [0xE9] @ py '' (2K) !'') w2)
               else
                 (None, (log ([0x26A0] @ [0xFE0F] @ py '' API a r'' @ [0xE9]
                              @ py ''pondu mais pas d'image. V'' @ [0xE9] @ py ''rifiez la console.'') w2)
                          \<lparr>stdout := stdout w2 @ [resp]\<rparr>)))"

definition lyon_generate_task :: "env \<Rightarrow> pystr \<Rightarrow> pystr \<Rightarrow> world \<Rightarrow> outcome \<times> world" where
  "lyon_generate_task env filename prompt_details w =
     (let api_key = strip (api_entry w) in
      case Client env api_key of
        Some e \<Rightarrow> (Returned, log ([0x274C] @ py '' Erreur Client: '' @ e) w)
      | None \<Rightarrow>
          (let base_prompt = lyon_base_prompt prompt_details;
               w1 = log ([0x23F3] @ py '' Gemini 3 Pro travaille sur : '' @ filename @ py ''...'') w;
               output_dir = path_join (cwd w1) (py ''output_lyon_gemini3'')
           in case makedirs env output_dir w1 of
                Inl e \<Rightarrow> (Raised e, w1)
              | Inr w2 \<Rightarrow>
                  (let final_path = path_join output_dir filename in
                   case lyon_call_and_save env filename base_prompt final_path w2 of
                     (Some e, w3) \<Rightarrow> (Returned, log ([0x274C] @ py '' ERREUR API : '' @ e) w3)
                   | (None, w3) \<Rightarrow> (Returned, w3))))"

section \<open>Dispatch\<close>

text \<open>
  \<open>trigger_generation\<close> is the command of every task button; the two applications
  define it with the same text.
\<close>

definition trigger_generation :: "pystr \<Rightarrow> pystr \<Rightarrow> world \<Rightarrow> world" where
  "trigger_generation filename prompt_add w =
     (if falsy (reference_image_path w) then
        showerror (py ''Erreur'') (py ''Chargez l'image d'abord !'') w
      else if strip (api_entry w) = [] then
        showerror (py ''Erreur'') (py ''Cl'' @ [0xE9] @ py '' API manquante !'') w
      else start_thread filename prompt_add w)"

text \<open>\<open>for filename, prompt in configs: threading.Thread(...).start()\<close>\<close>

fun start_threads :: "(pystr \<times> pystr) list \<Rightarrow> world \<Rightarrow> world" where
  "start_threads [] w = w"
| "start_threads ((filename, prompt_add) # configs) w =
     start_threads configs (start_thread filename prompt_add w)"

section \<open>The Incity catalog: the buttons of create_buttons\<close>

text \<open>
  A button is declared by \<open>add_btn(parent, text, filename, prompt_add, color)\<close>; the
  tuple keeps the four arguments after the parent frame. Adjacent string literals of
  the source are joined by \<open>@\<close>, piece by piece, as the source writes them.
\<close>

type_synonym button = "pystr \<times> pystr \<times> pystr \<times> pystr"

definition weather_day_buttons :: "button list" where
  "weather_day_buttons =
  [(py ''Golden Hour'', py ''incity_clear_golden.png'',
    py ''Golden hour lighting, warm orange and pink sunset sky, ''
      @ py ''soft golden light reflecting on the tower glass facade, ''
      @ py ''dramatic long shadows, romantic warm atmosphere, ''
      @ py ''the tower lit by beautiful sunset colors'',
    py ''#F97316''),
   ((py ''Jour Ensoleill'' @ [0xE9]), py ''incity_clear_day.png'',
    py ''Bright sunny midday, clear vivid blue sky, ''
      @ py ''strong direct sunlight, sharp shadows on the tower, ''
      @ py ''bright cheerful atmosphere, summer vibes, ''
      @ py ''the glass facade reflecting the blue sky'',
    py ''#3B82F6''),
   (py ''Partiellement Nuageux'', py ''incity_partly_cloudy_day.png'',
    py ''Partly cloudy sky, mix of blue sky and white fluffy clouds, ''
      @ py ''sun visible between clouds, dynamic lighting with soft shadows, ''
      @ py ''pleasant weather, some clouds drifting across the sky, ''
      @ py ''the tower with alternating sun and cloud shadows'',
    py ''#60A5FA''),
   (py ''Nuageux'', py ''incity_cloudy_day.png'',
    py ''Overcast grey sky, flat diffused lighting, ''
      @ py ''no direct shadows, soft grey clouds covering the sky, ''
      @ py ''muted colors, typical Lyon grey day atmosphere, ''
      @ py ''the tower under cloudy weather'',
    py ''#6B7280''),
   (py ''Pluie'', py ''incity_rain_day.png'',
    py ''Rainy weather, dark grey stormy clouds, ''
      @ py ''visible rain drops falling, wet reflections on surfaces, ''
      @ py ''puddles on the ground, moody rainy atmosphere, ''
      @ py ''the tower during rainfall with glistening wet facade'',
    py ''#1E40AF''),
   (py ''Neige'', py ''incity_snow_day.png'',
    py ''Snowy winter day, white overcast sky, ''
      @ py ''snow falling gently, snow accumulation on surfaces, ''
      @ py ''cold blue-white atmosphere, winter wonderland, ''
      @ py ''the tower covered with snow on ledges'',
    py ''#94A3B8''),
   (py ''Orage'', py ''incity_storm_day.png'',
    py ''Dramatic thunderstorm, very dark ominous clouds, ''
      @ py ''lightning bolt visible in the sky, intense atmosphere, ''
      @ py ''dramatic contrast between dark sky and occasional light, ''
      @ py ''the tower during a powerful storm'',
    py ''#4C1D95'')]"

definition easter_eggs_day :: "(pystr \<times> pystr \<times> pystr \<times> pystr) list" where
  "easter_eggs_day =
  [((py ''F'' @ [0xEA] @ py ''te des Lumi'' @ [0xE8] @ py ''res''), py ''incity_fete_lumieres_day.png'',
    py ''Early december day, pale winter sunlight, ''
      @ py ''sky with subtle purple and blue gradient hues, ''
      @ py ''the tower with faint colorful LED lights visible on facade even in daylight, ''
      @ py ''magical anticipation atmosphere, crisp cold air feeling'',
    py ''#7B68EE''),
   ((py ''No'' @ [0xEB] @ py ''l''), py ''incity_noel_day.png'',
    py ''Christmas day, soft golden winter light, light snow falling, ''
      @ py ''sky with warm peachy pink winter clouds, ''
      @ py ''the tower with subtle green and red LED lights glowing softly on facade, ''
      @ py ''cozy magical Christmas morning atmosphere'',
    py ''#228B22''),
   (py ''Nouvel An'', py ''incity_nouvel_an_day.png'',
    py ''New Year's day morning, bright crisp winter light, ''
      @ py ''sky with golden and champagne colored clouds, ''
      @ py ''the tower with faint golden sparkle LED lights on facade, ''
      @ py ''fresh hopeful new beginning atmosphere'',
    py ''#FFD700''),
   (py ''14 Juillet'', py ''incity_14_juillet_day.png'',
    py ''Bastille Day, bright summer sun, ''
      @ py ''vivid blue sky with subtle white clouds forming tricolor effect, ''
      @ py ''the tower with faint blue white red LED accent lights on facade, ''
      @ py ''patriotic celebratory summer atmosphere'',
    py ''#0055A4''),
   (py ''Halloween'', py ''incity_halloween_day.png'',
    py ''Halloween day, dramatic orange and purple sunset sky, ''
      @ py ''moody clouds with eerie autumn colors, ''
      @ py ''the tower with faint orange and purple LED lights glowing on facade, ''
      @ py ''mysterious spooky but fun atmosphere'',
    py ''#FF7518''),
   (py ''Saint-Valentin'', py ''incity_saint_valentin_day.png'',
    py ''Valentine's day, soft romantic pink golden hour light, ''
      @ py ''sky with delicate pink and rose colored clouds, ''
      @ py ''the tower with subtle pink heart-shaped LED patterns glowing softly on facade, ''
      @ py ''romantic dreamy love atmosphere'',
    py ''#FF69B4'')]"

definition easter_eggs :: "(pystr \<times> pystr \<times> pystr \<times> pystr) list" where
  "easter_eggs =
  [((py ''F'' @ [0xEA] @ py ''te des Lumi'' @ [0xE8] @ py ''res''), py ''incity_fete_lumieres_night.png'',
    py ''Night scene, dark blue sky with stars, ''
      @ py ''the Incity tower displaying SPECTACULAR COLORFUL LED LIGHT SHOW, ''
      @ py ''animated rainbow colors flowing on the facade, purple blue pink lights, ''
      @ py ''artistic light projections, Lyon Festival of Lights celebration, ''
      @ py ''magical luminous atmosphere, the tower as a beacon of colored lights'',
    py ''#8B5CF6''),
   ((py ''No'' @ [0xEB] @ py ''l''), py ''incity_noel_night.png'',
    py ''Christmas night, dark starry sky, light snow falling, ''
      @ py ''the Incity tower displaying FESTIVE RED AND GREEN LED LIGHTS, ''
      @ py ''Christmas tree pattern made of green LEDs, red accents, ''
      @ py ''warm golden fairy lights, holiday spirit, ''
      @ py ''magical cozy Christmas atmosphere on the tower'',
    py ''#DC2626''),
   (py ''Nouvel An'', py ''incity_nouvel_an_night.png'',
    py ''New Year's Eve night, fireworks exploding in the sky, ''
      @ py ''the Incity tower displaying GOLDEN AND WHITE SPARKLING LED ANIMATION, ''
      @ py ''shimmering golden lights cascading down the facade, ''
      @ py ''champagne gold and silver sparkles, celebratory atmosphere, ''
      @ py ''the tower glowing with festive golden light'',
    py ''#FBBF24''),
   (py ''14 Juillet'', py ''incity_14_juillet_night.png'',
    py ''Bastille Day night, fireworks in the background, ''
      @ py ''the Incity tower displaying FRENCH FLAG COLORS in LED lights, ''
      @ py ''blue white red vertical stripes illuminating the facade, ''
      @ py ''patriotic tricolor lighting, national celebration, ''
      @ py ''the tower proudly showing bleu blanc rouge'',
    py ''#1D4ED8''),
   (py ''Halloween'', py ''incity_halloween_night.png'',
    py ''Halloween night, full moon visible, spooky atmosphere, ''
      @ py ''the Incity tower displaying ORANGE AND PURPLE LED LIGHTS, ''
      @ py ''jack-o-lantern face pattern in orange LEDs, purple accents, ''
      @ py ''eerie glow, bats silhouettes near the tower, ''
      @ py ''spooky but fun Halloween lighting'',
    py ''#EA580C''),
   (py ''Saint-Valentin'', py ''incity_saint_valentin_night.png'',
    py ''Valentine's night, romantic starry sky, ''
      @ py ''the Incity tower displaying PINK AND RED HEART-SHAPED LED PATTERNS, ''
      @ py ''multiple hearts made of pink LEDs flowing up the facade, ''
      @ py ''romantic rose-colored glow, love atmosphere, ''
      @ py ''the tower as a symbol of love with heart lights'',
    py ''#DB2777'')]"

definition night_base :: pystr where
  "night_base =
      py ''Night scene, dark blue night sky with soft 3D claymorphism clouds, ''
      @ py ''crescent moon visible in the sky, ''
      @ py ''the Incity tower with its rectangular top section displaying HORIZONTAL LED LIGHT LINES, ''
      @ py ''the cylindrical lower section with warm orange lit windows, ''
      @ py ''calm peaceful night atmosphere''"

definition fullmoon_base :: pystr where
  "fullmoon_base =
      py ''Night scene, dark blue night sky with soft 3D claymorphism clouds, ''
      @ py ''LARGE BRIGHT FULL MOON prominently visible in the sky casting silver moonlight, ''
      @ py ''the Incity tower with its rectangular top section displaying HORIZONTAL LED LIGHT LINES, ''
      @ py ''the cylindrical lower section with warm orange lit windows, ''
      @ py ''magical mystical full moon night atmosphere, moon reflecting on tower surface''"

definition night_colors :: "(pystr \<times> pystr \<times> pystr \<times> pystr) list" where
  "night_colors =
  [(py ''Cyan (Bon)'', py ''incity_night_cyan.png'', py ''#50F0E6'', py ''bright cyan turquoise''),
   (py ''Vert (Moyen)'', py ''incity_night_green.png'', py ''#50CCAA'', py ''mint green teal''),
   ((py ''Jaune (D'' @ [0xE9] @ py ''grad'' @ [0xE9] @ py '')''), py ''incity_night_yellow.png'', py ''#F0E641'', py ''bright yellow''),
   (py ''Rouge (Mauvais)'', py ''incity_night_red.png'', py ''#E63A52'', py ''vivid red coral''),
   ((py ''Violet (Tr'' @ [0xE8] @ py ''s Mauvais)''), py ''incity_night_purple.png'', py ''#872181'', py ''deep purple magenta'')]"

definition fullmoon_colors :: "(pystr \<times> pystr \<times> pystr \<times> pystr) list" where
  "fullmoon_colors =
  [(py ''Cyan (Bon)'', py ''incity_fullmoon_cyan.png'', py ''#50F0E6'', py ''bright cyan turquoise''),
   (py ''Vert (Moyen)'', py ''incity_fullmoon_green.png'', py ''#50CCAA'', py ''mint green teal''),
   ((py ''Jaune (D'' @ [0xE9] @ py ''grad'' @ [0xE9] @ py '')''), py ''incity_fullmoon_yellow.png'', py ''#F0E641'', py ''bright yellow''),
   (py ''Rouge (Mauvais)'', py ''incity_fullmoon_red.png'', py ''#E63A52'', py ''vivid red coral''),
   ((py ''Violet (Tr'' @ [0xE8] @ py ''s Mauvais)''), py ''incity_fullmoon_purple.png'', py ''#872181'', py ''deep purple magenta'')]"

text \<open>The loops of \<open>create_buttons\<close> that turn the tables into buttons.\<close>

definition easter_day_buttons :: "button list" where
  "easter_day_buttons =
     map (\<lambda>(event_name, filename, prompt_add, color). (event_name, filename, prompt_add, color))
       easter_eggs_day"

definition easter_night_buttons :: "button list" where
  "easter_night_buttons =
     map (\<lambda>(event_name, filename, prompt_add, color). (event_name, filename, prompt_add, color))
       easter_eggs"

definition night_buttons :: "button list" where
  "night_buttons =
     map (\<lambda>(color_name, filename, btn_color, led_color).
            (color_name, filename,
             night_base @ py '', the LED lines glowing in '' @ led_color @ py '' color'', btn_color))
       night_colors"

definition fullmoon_buttons :: "button list" where
  "fullmoon_buttons =
     map (\<lambda>(color_name, filename, btn_color, led_color).
            (color_name, filename,
             fullmoon_base @ py '', the LED lines glowing in '' @ led_color @ py '' color'', btn_color))
       fullmoon_colors"

text \<open>The task a button dispatches: \<open>command=lambda: self.trigger_generation(filename, prompt_add)\<close>.\<close>

definition task_of :: "button \<Rightarrow> pystr \<times> pystr" where
  "task_of b = (case b of (text, filename, prompt_add, color) \<Rightarrow> (filename, prompt_add))"

definition button_command :: "button \<Rightarrow> world \<Rightarrow> world" where
  "button_command b w = (case task_of b of (filename, prompt_add) \<Rightarrow> trigger_generation filename prompt_add w)"

section \<open>The Incity batch operations\<close>

text \<open>
  Each batch operation carries its own list of (filename, prompt) pairs, written out
  again in the source; \<open>batch_night_base\<close> and \<open>batch_fullmoon_base\<close> are the local
  \<open>night_base\<close> and \<open>fullmoon_base\<close> of \<open>generate_all_night\<close> and \<open>generate_all_fullmoon\<close>.
\<close>

definition day_configs :: "(pystr \<times> pystr) list" where
  "day_configs =
  [(py ''incity_clear_golden.png'',
    py ''Golden hour lighting, warm orange and pink sunset sky, soft golden light reflecting on the tower glass facade, dramatic long shadows, romantic warm atmosphere, the tower lit by beautiful sunset colors''),
   (py ''incity_clear_day.png'',
    py ''Bright sunny midday, clear vivid blue sky, strong direct sunlight, sharp shadows on the tower, bright cheerful atmosphere, summer vibes, the glass facade reflecting the blue sky''),
   (py ''incity_partly_cloudy_day.png'',
    py ''Partly cloudy sky, mix of blue sky and white fluffy clouds, sun visible between clouds, dynamic lighting with soft shadows, pleasant weather, some clouds drifting across the sky, the tower with alternating sun and cloud shadows''),
   (py ''incity_cloudy_day.png'',
    py ''Overcast grey sky, flat diffused lighting, no direct shadows, soft grey clouds covering the sky, muted colors, typical Lyon grey day atmosphere, the tower under cloudy weather''),
   (py ''incity_rain_day.png'',
    py ''Rainy weather, dark grey stormy clouds, visible rain drops falling, wet reflections on surfaces, puddles on the ground, moody rainy atmosphere, the tower during rainfall with glistening wet facade''),
   (py ''incity_snow_day.png'',
    py ''Snowy winter day, white overcast sky, snow falling gently, snow accumulation on surfaces, cold blue-white atmosphere, winter wonderland, the tower covered with snow on ledges''),
   (py ''incity_storm_day.png'',
    py ''Dramatic thunderstorm, very dark ominous clouds, lightning bolt visible in the sky, intense atmosphere, dramatic contrast between dark sky and occasional light, the tower during a powerful storm'')]"

definition easter_day_configs :: "(pystr \<times> pystr) list" where
  "easter_day_configs =
  [(py ''incity_fete_lumieres_day.png'',
    py ''Early december day, pale winter sunlight, sky with subtle purple and blue gradient hues, the tower with faint colorful LED lights visible on facade even in daylight, magical anticipation atmosphere, crisp cold air feeling''),
   (py ''incity_noel_day.png'',
    py ''Christmas day, soft golden winter light, light snow falling, sky with warm peachy pink winter clouds, the tower with subtle green and red LED lights glowing softly on facade, cozy magical Christmas morning atmosphere''),
   (py ''incity_nouvel_an_day.png'',
    py ''New Year's day morning, bright crisp winter light, sky with golden and champagne colored clouds, the tower with faint golden sparkle LED lights on facade, fresh hopeful new beginning atmosphere''),
   (py ''incity_14_juillet_day.png'',
    py ''Bastille Day, bright summer sun, vivid blue sky with subtle white clouds forming tricolor effect, the tower with faint blue white red LED accent lights on facade, patriotic celebratory summer atmosphere''),
   (py ''incity_halloween_day.png'',
    py ''Halloween day, dramatic orange and purple sunset sky, moody clouds with eerie autumn colors, the tower with faint orange and purple LED lights glowing on facade, mysterious spooky but fun atmosphere''),
   (py ''incity_saint_valentin_day.png'',
    py ''Valentine's day, soft romantic pink golden hour light, sky with delicate pink and rose colored clouds, the tower with subtle pink heart-shaped LED patterns glowing softly on facade, romantic dreamy love atmosphere'')]"

definition easter_night_configs :: "(pystr \<times> pystr) list" where
  "easter_night_configs =
  [(py ''incity_fete_lumieres_night.png'',
    py ''Night scene, dark blue sky with stars, the Incity tower displaying SPECTACULAR COLORFUL LED LIGHT SHOW, animated rainbow colors flowing on the facade, purple blue pink lights, artistic light projections, Lyon Festival of Lights celebration, magical luminous atmosphere, the tower as a beacon of colored lights''),
   (py ''incity_noel_night.png'',
    py ''Christmas night, dark starry sky, light snow falling, the Incity tower displaying FESTIVE RED AND GREEN LED LIGHTS, Christmas tree pattern made of green LEDs, red accents, warm golden fairy lights, holiday spirit, magical cozy Christmas atmosphere on the tower''),
   (py ''incity_nouvel_an_night.png'',
    py ''New Year's Eve night, fireworks exploding in the sky, the Incity tower displaying GOLDEN AND WHITE SPARKLING LED ANIMATION, shimmering golden lights cascading down the facade, champagne gold and silver sparkles, celebratory atmosphere, the tower glowing with festive golden light''),
   (py ''incity_14_juillet_night.png'',
    py ''Bastille Day night, fireworks in the background, the Incity tower displaying FRENCH FLAG COLORS in LED lights, blue white red vertical stripes illuminating the facade, patriotic tricolor lighting, national celebration, the tower proudly showing bleu blanc rouge''),
   (py ''incity_halloween_night.png'',
    py ''Halloween night, full moon visible, spooky atmosphere, the Incity tower displaying ORANGE AND PURPLE LED LIGHTS, jack-o-lantern face pattern in orange LEDs, purple accents, eerie glow, bats silhouettes near the tower, spooky but fun Halloween lighting''),
   (py ''incity_saint_valentin_night.png'',
    py ''Valentine's night, romantic starry sky, the Incity tower displaying PINK AND RED HEART-SHAPED LED PATTERNS, multiple hearts made of pink LEDs flowing up the facade, romantic rose-colored glow, love atmosphere, the tower as a symbol of love with heart lights'')]"

definition batch_night_base :: pystr where
  "batch_night_base =
      py ''Night scene, dark blue night sky with soft 3D claymorphism clouds, crescent moon visible in the sky, the Incity tower with its rectangular top section displaying HORIZONTAL LED LIGHT LINES, the cylindrical lower section with warm orange lit windows, calm peaceful night atmosphere''"

definition night_configs :: "(pystr \<times> pystr) list" where
  "night_configs =
  [(py ''incity_night_cyan.png'',
    batch_night_base @ py '', the LED lines glowing in bright cyan turquoise color''),
   (py ''incity_night_green.png'',
    batch_night_base @ py '', the LED lines glowing in mint green teal color''),
   (py ''incity_night_yellow.png'',
    batch_night_base @ py '', the LED lines glowing in bright yellow color''),
   (py ''incity_night_red.png'',
    batch_night_base @ py '', the LED lines glowing in vivid red coral color''),
   (py ''incity_night_purple.png'',
    batch_night_base @ py '', the LED lines glowing in deep purple magenta color'')]"

definition batch_fullmoon_base :: pystr where
  "batch_fullmoon_base =
      py ''Night scene, dark blue night sky with soft 3D claymorphism clouds, LARGE BRIGHT FULL MOON prominently visible in the sky casting silver moonlight, the Incity tower with its rectangular top section displaying HORIZONTAL LED LIGHT LINES, the cylindrical lower section with warm orange lit windows, magical mystical full moon night atmosphere, moon reflecting on tower surface''"

definition fullmoon_configs :: "(pystr \<times> pystr) list" where
  "fullmoon_configs =
  [(py ''incity_fullmoon_cyan.png'',
    batch_fullmoon_base @ py '', the LED lines glowing in bright cyan turquoise color''),
   (py ''incity_fullmoon_green.png'',
    batch_fullmoon_base @ py '', the LED lines glowing in mint green teal color''),
   (py ''incity_fullmoon_yellow.png'',
    batch_fullmoon_base @ py '', the LED lines glowing in bright yellow color''),
   (py ''incity_fullmoon_red.png'',
    batch_fullmoon_base @ py '', the LED lines glowing in vivid red coral color''),
   (py ''incity_fullmoon_purple.png'',
    batch_fullmoon_base @ py '', the LED lines glowing in deep purple magenta color'')]"

definition generate_all_day :: "world \<Rightarrow> world" where
  "generate_all_day w =
     (if falsy (reference_image_path w) then
        showerror (py ''Erreur'') (py ''Chargez l'image d'abord !'') w
      else if strip (api_entry w) = [] then
        showerror (py ''Erreur'') (py ''Cl'' @ [0xE9] @ py '' API manquante !'') w
      else start_threads day_configs
             (log (py ''G'' @ [0xE9] @ py ''n'' @ [0xE9] @ py ''ration batch M'' @ [0xC9] @ py ''T''
                   @ [0xC9] @ py ''O JOUR (7 images)...'') w))"

definition generate_all_easter_day :: "world \<Rightarrow> world" where
  "generate_all_easter_day w =
     (if falsy (reference_image_path w) then
        showerror (py ''Erreur'') (py ''Chargez l'image d'abord !'') w
      else if strip (api_entry w) = [] then
        showerror (py ''Erreur'') (py ''Cl'' @ [0xE9] @ py '' API manquante !'') w
      else start_threads easter_day_configs
             (log (py ''G'' @ [0xE9] @ py ''n'' @ [0xE9]
                   @ py ''ration batch EASTER EGGS JOUR (6 images)...'') w))"

definition generate_all_easter_night :: "world \<Rightarrow> world" where
  "generate_all_easter_night w =
     (if falsy (reference_image_path w) then
        showerror (py ''Erreur'') (py ''Chargez l'image d'abord !'') w
      else if strip (api_entry w) = [] then
        showerror (py ''Erreur'') (py ''Cl'' @ [0xE9] @ py '' API manquante !'') w
      else start_threads easter_night_configs
             (log (py ''G'' @ [0xE9] @ py ''n'' @ [0xE9]
                   @ py ''ration batch EASTER EGGS NUIT (6 images)...'') w))"

definition generate_all_night :: "world \<Rightarrow> world" where
  "generate_all_night w =
     (if falsy (reference_image_path w) then
        showerror (py ''Erreur'') (py ''Chargez l'image d'abord !'') w
      else if strip (api_entry w) = [] then
        showerror (py ''Erreur'') (py ''Cl'' @ [0xE9] @ py '' API manquante !'') w
      else start_threads night_configs
             (log (py ''G'' @ [0xE9] @ py ''n'' @ [0xE9]
                   @ py ''ration batch NUIT LED (5 images)...'') w))"

definition generate_all_fullmoon :: "world \<Rightarrow> world" where
  "generate_all_fullmoon w =
     (if falsy (reference_image_path w) then
        showerror (py ''Erreur'') (py ''Chargez l'image d'abord !'') w
      else if strip (api_entry w) = [] then
        showerror (py ''Erreur'') (py ''Cl'' @ [0xE9] @ py '' API manquante !'') w
      else start_threads fullmoon_configs
             (log (py ''G'' @ [0xE9] @ py ''n'' @ [0xE9]
                   @ py ''ration batch PLEINE LUNE (5 images)...'') w))"

definition generate_all_everything :: "world \<Rightarrow> world" where
  "generate_all_everything w =
     (if falsy (reference_image_path w) then
        showerror (py ''Erreur'') (py ''Chargez l'image d'abord !'') w
      else if strip (api_entry w) = [] then
        showerror (py ''Erreur'') (py ''Cl'' @ [0xE9] @ py '' API manquante !'') w
      else
        (let w0 = log (py ''G'' @ [0xE9] @ py ''n'' @ [0xE9] @ py ''ration TOTALE (29 images)...'') w;
             w1 = generate_all_day w0;
             w2 = generate_all_easter_day w1;
             w3 = generate_all_easter_night w2;
             w4 = generate_all_night w3
         in generate_all_fullmoon w4))"



section \<open>Notions used to state the properties\<close>

text \<open>
  The tasks a command dispatched: the threads started between the world before and the
  world after. \<open>dispatches_exactly w w' members\<close> holds when the earlier threads are
  kept and the new ones are, as a multiset, exactly \<open>members\<close>, none twice.
\<close>

definition dispatched :: "world \<Rightarrow> world \<Rightarrow> (pystr \<times> pystr) list" where
  "dispatched w w' = drop (length (threads w)) (threads w')"

definition dispatches_exactly :: "world \<Rightarrow> world \<Rightarrow> (pystr \<times> pystr) list \<Rightarrow> bool" where
  "dispatches_exactly w w' members \<longleftrightarrow>
     take (length (threads w)) (threads w') = threads w
     \<and> mset (dispatched w w') = mset members
     \<and> distinct (dispatched w w')"

text \<open>The declared members of the five groups, and of all of them together.\<close>

definition all_buttons :: "button list" where
  "all_buttons =
     weather_day_buttons @ easter_day_buttons @ easter_night_buttons @ night_buttons @ fullmoon_buttons"

text \<open>
  The fixed text of the two prompt templates around the fragment, and the words the
  preservation instruction must contain (geometry, camera angle, style).
\<close>

definition incity_intro :: pystr where
  "incity_intro =
     py ''Using the provided image of the Incity tower in Lyon, modify ONLY the atmosphere and lighting. ''"

definition incity_preservation :: pystr where
  "incity_preservation =
     py ''CRITICAL: Keep the EXACT same tower geometry, proportions, camera angle, and claymorphism 3D style. ''
     @ py ''The tower structure, windows pattern, and architectural details must remain IDENTICAL. ''
     @ py ''Only change: sky color, lighting direction, weather effects, and LED colors on the tower facade.''"

definition lyon_intro :: pystr where
  "lyon_intro =
     py ''Using the provided image of Lyon city, modify the scene to match this weather condition: ''"

definition lyon_preservation :: pystr where
  "lyon_preservation =
     py ''Keep the exact same buildings geometry, camera angle, and claymorphism style. ''
     @ py ''Only change the lighting, sky, ground texture, and foliage colors.''"

definition required_clauses :: "pystr list" where
  "required_clauses = [py ''Keep the'', py ''same'', py ''geometry'', py ''camera angle'', py ''style'']"

text \<open>The output directory and the output path of a task, as \<open>generate_task\<close> computes them.\<close>

definition incity_output_dir :: "world \<Rightarrow> pystr" where
  "incity_output_dir w = path_join (cwd w) (py ''output_incity'')"

definition incity_final_path :: "world \<Rightarrow> pystr \<Rightarrow> pystr" where
  "incity_final_path w filename = path_join (incity_output_dir w) filename"

definition lyon_output_dir :: "world \<Rightarrow> pystr" where
  "lyon_output_dir w = path_join (cwd w) (py ''output_lyon_gemini3'')"

definition lyon_final_path :: "world \<Rightarrow> pystr \<Rightarrow> pystr" where
  "lyon_final_path w filename = path_join (lyon_output_dir w) filename"

text \<open>
  A part carries data when its \<open>inline_data\<close> is truthy; a response has no image when
  none of its parts does. \<open>part_image\<close> is the byte sequence a data-carrying part
  yields: what its image accessor saves when that works, otherwise its inline data, decoded
  when it is text.
\<close>

definition carries_data :: "part \<Rightarrow> bool" where
  "carries_data p \<longleftrightarrow> inline_data p \<noteq> None"


definition accessor_works :: "part \<Rightarrow> bool" where
  "accessor_works p \<longleftrightarrow> (case as_image p of AsImage img \<Rightarrow> True | _ \<Rightarrow> False)"

definition raw_image :: "env \<Rightarrow> part \<Rightarrow> bytes option" where
  "raw_image env p =
     (case inline_data p of
        Some (Bytes b) \<Rightarrow> Some b
      | Some (Str s) \<Rightarrow> (case b64decode env s of Inr b \<Rightarrow> Some b | Inl e \<Rightarrow> None)
      | _ \<Rightarrow> None)"

definition part_image :: "env \<Rightarrow> part \<Rightarrow> bytes option" where
  "part_image env p = (case as_image p of AsImage img \<Rightarrow> Some img | _ \<Rightarrow> raw_image env p)"

text \<open>Two worlds that differ at most in the content of the file at one path.\<close>

definition differ_at_file :: "pystr \<Rightarrow> world \<Rightarrow> world \<Rightarrow> bool" where
  "differ_at_file path w w' \<longleftrightarrow>
     (\<exists>F. w' = w\<lparr>files := F\<rparr> \<and> (\<forall>p. p \<noteq> path \<longrightarrow> F p = files w p))"

text \<open>The world with the file at a path holding the given content.\<close>

definition with_file :: "pystr \<Rightarrow> bytes \<Rightarrow> world \<Rightarrow> world" where
  "with_file path content w = w\<lparr>files := (files w)(path \<mapsto> content)\<rparr>"

text \<open>The log entries a run added.\<close>

definition new_log :: "world \<Rightarrow> world \<Rightarrow> pystr list" where
  "new_log w w' = drop (length (log_box w)) (log_box w')"

text \<open>
  The two applications side by side, so that a property can be stated once for both:
  the task function, its output directory and path, the prompt it composes, the
  request it submits and the messages it logs.
\<close>

datatype app = Incity | Lyon

fun generate_task :: "app \<Rightarrow> env \<Rightarrow> pystr \<Rightarrow> pystr \<Rightarrow> world \<Rightarrow> outcome \<times> world" where
  "generate_task Incity = incity_generate_task"
| "generate_task Lyon = lyon_generate_task"

fun output_dir :: "app \<Rightarrow> world \<Rightarrow> pystr" where
  "output_dir Incity w = incity_output_dir w"
| "output_dir Lyon w = lyon_output_dir w"

fun final_path :: "app \<Rightarrow> world \<Rightarrow> pystr \<Rightarrow> pystr" where
  "final_path Incity w filename = incity_final_path w filename"
| "final_path Lyon w filename = lyon_final_path w filename"

fun base_prompt :: "app \<Rightarrow> pystr \<Rightarrow> pystr" where
  "base_prompt Incity prompt_details = incity_base_prompt prompt_details"
| "base_prompt Lyon prompt_details = lyon_base_prompt prompt_details"

fun preservation :: "app \<Rightarrow> pystr" where
  "preservation Incity = incity_preservation"
| "preservation Lyon = lyon_preservation"

fun intro :: "app \<Rightarrow> pystr" where
  "intro Incity = incity_intro"
| "intro Lyon = lyon_intro"

fun task_request :: "app \<Rightarrow> pystr \<Rightarrow> world \<Rightarrow> request" where
  "task_request Incity prompt_details w = incity_request (incity_base_prompt prompt_details) w"
| "task_request Lyon prompt_details w = lyon_request (lyon_base_prompt prompt_details) w"

definition entry :: "pystr \<Rightarrow> pystr" where
  "entry message = py ''> '' @ message @ [0xA]"

fun client_error_message :: "app \<Rightarrow> pystr \<Rightarrow> pystr" where
  "client_error_message Incity e = py ''Erreur Client: '' @ e"
| "client_error_message Lyon e = [0x274C] @ py '' Erreur Client: '' @ e"

fun progress_message :: "app \<Rightarrow> pystr \<Rightarrow> pystr" where
  "progress_message Incity filename =
     py ''G'' @ [0xE9] @ py ''n'' @ [0xE9] @ py ''ration: '' @ filename @ py ''...''"
| "progress_message Lyon filename =
     [0x23F3] @ py '' Gemini 3 Pro travaille sur : '' @ filename @ py ''...''"

fun success_message :: "app \<Rightarrow> pystr \<Rightarrow> pystr" where
  "success_message Incity filename = py ''OK: '' @ filename"
| "success_message Lyon filename =
     [0x2705] @ py '' SUCC'' @ [0xC8] @ py ''S : '' @ filename @ py '' sauvegard'' @ [0xE9] @ py '' (2K) !''"

fun no_image_message :: "app \<Rightarrow> pystr \<Rightarrow> pystr" where
  "no_image_message Incity filename = py ''Pas d'image retourn'' @ [0xE9] @ py ''e pour '' @ filename"
| "no_image_message Lyon filename =
     [0x26A0] @ [0xFE0F] @ py '' API a r'' @ [0xE9] @ py ''pondu mais pas d'image. V'' @ [0xE9]
     @ py ''rifiez la console.''"

fun error_message :: "app \<Rightarrow> pystr \<Rightarrow> pystr" where
  "error_message Incity e = py ''ERREUR: '' @ e"
| "error_message Lyon e = [0x274C] @ py '' ERREUR API : '' @ e"

text \<open>
  The world in which a task makes its generation call (progress logged, directory
  created) and the world right after the call was submitted.
\<close>

definition started :: "app \<Rightarrow> pystr \<Rightarrow> world \<Rightarrow> world" where
  "started a filename w =
     (log (progress_message a filename) w)\<lparr>dirs := insert (output_dir a w) (dirs w)\<rparr>"

definition called :: "app \<Rightarrow> pystr \<Rightarrow> pystr \<Rightarrow> world \<Rightarrow> world" where
  "called a filename prompt_details w =
     (started a filename w)\<lparr>requests := requests w @ [task_request a prompt_details w]\<rparr>"

text \<open>
  The image a response stores when nothing fails: what the accessor saves for the first
  data-carrying part whose accessor works and, when there is none, the raw image of
  the first data-carrying part.
\<close>

definition stored_image :: "env \<Rightarrow> part list \<Rightarrow> bytes option" where
  "stored_image env ps =
     (case find accessor_works (filter carries_data ps) of
        Some q \<Rightarrow> part_image env q
      | None \<Rightarrow> (case filter carries_data ps of [] \<Rightarrow> None | p # rest \<Rightarrow> raw_image env p))"


section \<open>Concrete inputs\<close>

definition fresh_world :: world where
  "fresh_world =
     \<lparr>reference_image_path = None, pil_image = None, api_entry = [], log_box = [],
      dialogs = [], threads = [], requests = [], stdout = [],
      cwd = py ''/home/user'', dirs = {py ''/home/user''}, files = Map.empty\<rparr>"

definition ready_world :: world where
  "ready_world =
     fresh_world\<lparr>reference_image_path := Some (py ''/home/user/incity.png''),
                 pil_image := Some [1, 2, 3], api_entry := py '' key-123 ''\<rparr>"


text \<open>
  A cooperative environment: the client is built, the service answers with a text part
  and an image part (inline bytes, no accessor), the file system raises nothing; and
  variations of it in which one collaborator fails.
\<close>

definition image_part :: part where
  "image_part = \<lparr>inline_data = Some (Bytes [0x89, 0x50, 0x4E, 0x47]), as_image = NoAttr\<rparr>"

definition text_part :: part where
  "text_part = \<lparr>inline_data = None, as_image = NoAttr\<rparr>"

definition base64_part :: part where
  "base64_part = \<lparr>inline_data = Some (Str (py ''aGk='')), as_image = AsImageRaises\<rparr>"

definition good_env :: env where
  "good_env =
     \<lparr>Client = (\<lambda>k. None),
      generate_content = (\<lambda>r. Inr \<lparr>parts = Some [text_part, image_part]\<rparr>),
      b64decode = (\<lambda>s. if s = py ''aGk='' then Inr [0x68, 0x69] else Inl (py ''Incorrect padding'')),
      makedirs_error = (\<lambda>p. None),
      open_error = (\<lambda>p. None),
      write_error = (\<lambda>p. None)\<rparr>"

definition base64_env :: env where
  "base64_env = good_env\<lparr>generate_content := (\<lambda>r. Inr \<lparr>parts = Some [text_part, base64_part]\<rparr>)\<rparr>"

definition timeout_env :: env where
  "timeout_env = good_env\<lparr>generate_content := (\<lambda>r. Inl (py ''timeout''))\<rparr>"

definition refused_key_env :: env where
  "refused_key_env = good_env\<lparr>Client := (\<lambda>k. Some (py ''invalid key''))\<rparr>"

definition no_mkdir_env :: env where
  "no_mkdir_env = good_env\<lparr>makedirs_error := (\<lambda>p. Some (py ''[Errno 13] Permission denied''))\<rparr>"

definition no_open_env :: env where
  "no_open_env = good_env\<lparr>open_error := (\<lambda>p. Some (py ''[Errno 13] Permission denied''))\<rparr>"


section \<open>Strings and the catalog\<close>

lemma py_append: "py a @ py b = py (a @ b)" by (simp add: py_def)
lemma py_append2: "py a @ (py b @ r) = py (a @ b) @ r" by (simp add: py_def)
lemma py_eq_iff: "py a = py b \<longleftrightarrow> a = b"
  by (simp add: py_def inj_map_eq_map inj_on_def)



lemma threads_start_threads: "threads (start_threads cs w) = threads w @ cs"
  by (induction cs arbitrary: w) (auto simp: start_thread_def)

lemma start_threads_only_threads: "start_threads cs w = w\<lparr>threads := threads w @ cs\<rparr>"
  by (induction cs arbitrary: w) (auto simp: start_thread_def)

lemma day_configs_catalog: "day_configs = map task_of weather_day_buttons"
  unfolding day_configs_def weather_day_buttons_def task_of_def
  by (simp add: py_append py_append2)

lemma easter_day_configs_catalog: "easter_day_configs = map task_of easter_day_buttons"
  unfolding easter_day_configs_def easter_day_buttons_def easter_eggs_day_def task_of_def
  by (simp add: py_append py_append2)

lemma easter_night_configs_catalog: "easter_night_configs = map task_of easter_night_buttons"
  unfolding easter_night_configs_def easter_night_buttons_def easter_eggs_def task_of_def
  by (simp add: py_append py_append2)

lemma night_base_eq: "batch_night_base = night_base"
  unfolding batch_night_base_def night_base_def by (simp add: py_append py_append2)

lemma fullmoon_base_eq: "batch_fullmoon_base = fullmoon_base"
  unfolding batch_fullmoon_base_def fullmoon_base_def by (simp add: py_append py_append2)

lemma night_configs_catalog: "night_configs = map task_of night_buttons"
  unfolding night_configs_def night_buttons_def night_colors_def task_of_def night_base_eq
  by (simp add: py_append py_append2)

lemma fullmoon_configs_catalog: "fullmoon_configs = map task_of fullmoon_buttons"
  unfolding fullmoon_configs_def fullmoon_buttons_def fullmoon_colors_def task_of_def fullmoon_base_eq
  by (simp add: py_append py_append2)

lemma distinct_filenames:
  "distinct (map fst (day_configs @ easter_day_configs @ easter_night_configs @ night_configs @ fullmoon_configs))"
  unfolding day_configs_def easter_day_configs_def easter_night_configs_def night_configs_def fullmoon_configs_def
  by (simp add: py_eq_iff)

lemma distinct_all_configs:
  "distinct (day_configs @ easter_day_configs @ easter_night_configs @ night_configs @ fullmoon_configs)"
  using distinct_filenames by (rule distinct_map [THEN iffD1, THEN conjunct1])

lemma length_all_configs:
  "length (day_configs @ easter_day_configs @ easter_night_configs @ night_configs @ fullmoon_configs) = 29"
  by (simp add: day_configs_def easter_day_configs_def easter_night_configs_def night_configs_def fullmoon_configs_def)

lemma dispatches_exactly_append:
  "distinct ts \<Longrightarrow> threads w' = threads w @ ts \<Longrightarrow> dispatches_exactly w w' ts"
  by (simp add: dispatches_exactly_def dispatched_def)

text \<open>The batch operations once the preconditions hold.\<close>

lemma batch_ok:
  assumes "\<not> falsy (reference_image_path w)" and "strip (api_entry w) \<noteq> []"
  shows "threads (generate_all_day w) = threads w @ day_configs"
    and "threads (generate_all_easter_day w) = threads w @ easter_day_configs"
    and "threads (generate_all_easter_night w) = threads w @ easter_night_configs"
    and "threads (generate_all_night w) = threads w @ night_configs"
    and "threads (generate_all_fullmoon w) = threads w @ fullmoon_configs"
  using assms
  by (simp_all add: generate_all_day_def generate_all_easter_day_def generate_all_easter_night_def
      generate_all_night_def generate_all_fullmoon_def threads_start_threads log_def)

lemma batch_keeps_preconditions:
  "reference_image_path (generate_all_day w) = reference_image_path w \<and> api_entry (generate_all_day w) = api_entry w"
  "reference_image_path (generate_all_easter_day w) = reference_image_path w \<and> api_entry (generate_all_easter_day w) = api_entry w"
  "reference_image_path (generate_all_easter_night w) = reference_image_path w \<and> api_entry (generate_all_easter_night w) = api_entry w"
  "reference_image_path (generate_all_night w) = reference_image_path w \<and> api_entry (generate_all_night w) = api_entry w"
  by (simp_all add: generate_all_day_def generate_all_easter_day_def generate_all_easter_night_def
      generate_all_night_def start_threads_only_threads log_def showerror_def)

lemma everything_ok:
  assumes "\<not> falsy (reference_image_path w)" and "strip (api_entry w) \<noteq> []"
  shows "threads (generate_all_everything w) =
         threads w @ day_configs @ easter_day_configs @ easter_night_configs @ night_configs @ fullmoon_configs"
proof -
  define w0 where "w0 = log (py ''G'' @ [0xE9] @ py ''n'' @ [0xE9] @ py ''ration TOTALE (29 images)...'') w"
  define w1 where "w1 = generate_all_day w0"
  define w2 where "w2 = generate_all_easter_day w1"
  define w3 where "w3 = generate_all_easter_night w2"
  define w4 where "w4 = generate_all_night w3"
  have p0: "\<not> falsy (reference_image_path w0)" "strip (api_entry w0) \<noteq> []" "threads w0 = threads w"
    using assms by (simp_all add: w0_def log_def)
  have p1: "\<not> falsy (reference_image_path w1)" "strip (api_entry w1) \<noteq> []"
    using p0 by (simp_all add: w1_def batch_keeps_preconditions)
  have p2: "\<not> falsy (reference_image_path w2)" "strip (api_entry w2) \<noteq> []"
    using p1 by (simp_all add: w2_def batch_keeps_preconditions)
  have p3: "\<not> falsy (reference_image_path w3)" "strip (api_entry w3) \<noteq> []"
    using p2 by (simp_all add: w3_def batch_keeps_preconditions)
  have p4: "\<not> falsy (reference_image_path w4)" "strip (api_entry w4) \<noteq> []"
    using p3 by (simp_all add: w4_def batch_keeps_preconditions)
  have "generate_all_everything w = generate_all_fullmoon w4"
    using assms by (simp add: generate_all_everything_def Let_def w0_def w1_def w2_def w3_def w4_def)
  then show ?thesis
    using batch_ok(1)[OF p0(1,2)] batch_ok(2)[OF p1] batch_ok(3)[OF p2] batch_ok(4)[OF p3] batch_ok(5)[OF p4] p0(3)
    by (simp add: w1_def w2_def w3_def w4_def)
qed

text \<open>
  Claim C2. Once a reference image is loaded and the key field is not blank, each of the
  five group operations starts one thread per declared button of its group and no other:
  the dispatched (filename, prompt) pairs are, as a multiset, the tasks of the group's
  buttons, without duplicates; "generate everything" dispatches the tasks of all five
  groups, 29 in all.
\<close>

theorem batch_dispatches_declared_members:
  assumes "\<not> falsy (reference_image_path w)" and "strip (api_entry w) \<noteq> []"
  shows "dispatches_exactly w (generate_all_day w) (map task_of weather_day_buttons)
       \<and> dispatches_exactly w (generate_all_easter_day w) (map task_of easter_day_buttons)
       \<and> dispatches_exactly w (generate_all_easter_night w) (map task_of easter_night_buttons)
       \<and> dispatches_exactly w (generate_all_night w) (map task_of night_buttons)
       \<and> dispatches_exactly w (generate_all_fullmoon w) (map task_of fullmoon_buttons)
       \<and> dispatches_exactly w (generate_all_everything w) (map task_of all_buttons)
       \<and> length all_buttons = 29"
proof -
  note d = distinct_all_configs
  have d1: "distinct day_configs" and d2: "distinct easter_day_configs"
    and d3: "distinct easter_night_configs" and d4: "distinct night_configs"
    and d5: "distinct fullmoon_configs"
    using d by simp_all
  have all_eq: "map task_of all_buttons =
      day_configs @ easter_day_configs @ easter_night_configs @ night_configs @ fullmoon_configs"
    by (simp add: all_buttons_def day_configs_catalog easter_day_configs_catalog
        easter_night_configs_catalog night_configs_catalog fullmoon_configs_catalog)
  have len: "length all_buttons = 29"
    using length_all_configs all_eq [symmetric] by (metis length_map)
  show ?thesis
    using dispatches_exactly_append [OF d1 batch_ok(1) [OF assms]]
      dispatches_exactly_append [OF d2 batch_ok(2) [OF assms]]
      dispatches_exactly_append [OF d3 batch_ok(3) [OF assms]]
      dispatches_exactly_append [OF d4 batch_ok(4) [OF assms]]
      dispatches_exactly_append [OF d5 batch_ok(5) [OF assms]]
      dispatches_exactly_append [OF d everything_ok [OF assms]] len
    by (simp add: all_eq day_configs_catalog [symmetric] easter_day_configs_catalog [symmetric]
        easter_night_configs_catalog [symmetric] night_configs_catalog [symmetric]
        fullmoon_configs_catalog [symmetric])
qed

theorem batch_dispatches_declared_members_witness:
  "\<not> falsy (reference_image_path ready_world) \<and> strip (api_entry ready_world) \<noteq> []
   \<and> dispatches_exactly ready_world (generate_all_everything ready_world) (map task_of all_buttons)
   \<and> dispatches_exactly ready_world (generate_all_night ready_world) (map task_of night_buttons)
   \<and> length (threads (generate_all_everything ready_world)) = 29"
proof -
  have a: "\<not> falsy (reference_image_path ready_world)"
    by (simp add: ready_world_def fresh_world_def falsy_def py_def)
  have b: "strip (api_entry ready_world) \<noteq> []"
    by (simp add: ready_world_def fresh_world_def strip_def py_def py_isspace_def)
  have t: "threads ready_world = []" by (simp add: ready_world_def fresh_world_def)
  from batch_dispatches_declared_members [OF a b]
  have e: "dispatches_exactly ready_world (generate_all_everything ready_world) (map task_of all_buttons)"
    and n: "dispatches_exactly ready_world (generate_all_night ready_world) (map task_of night_buttons)"
    and l: "length all_buttons = 29" by simp_all
  from e t have "mset (threads (generate_all_everything ready_world)) = mset (map task_of all_buttons)"
    by (simp add: dispatches_exactly_def dispatched_def)
  then have "length (threads (generate_all_everything ready_world)) = length (map task_of all_buttons)"
    by (metis size_mset)
  with a b e n l show ?thesis by simp
qed

section \<open>Preconditions of dispatch\<close>






section \<open>The composed prompt\<close>

lemma sublist_in_append: "sublist c s \<Longrightarrow> sublist c (a @ s @ b)"
  by (metis sublist_append)

lemma sublist_in_suffix: "sublist c s \<Longrightarrow> sublist c (a @ s)"
  using sublist_in_append [of c s a "[]"] by simp

lemma incity_base_prompt_shape:
  "incity_base_prompt d = incity_intro @ d @ py ''. '' @ incity_preservation"
  by (simp add: incity_base_prompt_def incity_intro_def incity_preservation_def)

lemma lyon_base_prompt_shape:
  "lyon_base_prompt d = lyon_intro @ d @ py ''. '' @ lyon_preservation"
  by (simp add: lyon_base_prompt_def lyon_intro_def lyon_preservation_def)

lemma incity_preservation_clauses: "\<forall>c\<in>set required_clauses. sublist c incity_preservation"
  unfolding required_clauses_def incity_preservation_def py_append
  by (simp add: py_def sublist_code)

lemma lyon_preservation_clauses: "\<forall>c\<in>set required_clauses. sublist c lyon_preservation"
  unfolding required_clauses_def lyon_preservation_def py_append
  by (simp add: py_def sublist_code)

section \<open>The file operations of a task\<close>

lemma differ_at_file_refl: "differ_at_file path w w"
  unfolding differ_at_file_def by (rule exI [of _ "files w"]) simp

lemma differ_at_fileI: "differ_at_file path w (w\<lparr>files := (files w)(path := v)\<rparr>)"
  unfolding differ_at_file_def by (rule exI [of _ "(files w)(path := v)"]) simp

lemma differ_at_file_trans:
  "differ_at_file path w w1 \<Longrightarrow> differ_at_file path w1 w2 \<Longrightarrow> differ_at_file path w w2"
  unfolding differ_at_file_def by auto

lemma differ_at_file_fields:
  assumes "differ_at_file path w w'"
  shows "requests w' = requests w" "log_box w' = log_box w" "dirs w' = dirs w"
    "threads w' = threads w" "dialogs w' = dialogs w" "stdout w' = stdout w"
    "pil_image w' = pil_image w" "cwd w' = cwd w" "api_entry w' = api_entry w"
    "reference_image_path w' = reference_image_path w"
  using assms unfolding differ_at_file_def by auto

lemma differ_at_file_other: "differ_at_file path w w' \<Longrightarrow> p \<noteq> path \<Longrightarrow> files w' p = files w p"
  unfolding differ_at_file_def by auto

lemma write_file_differ: "differ_at_file path w (snd (write_file env path d w))"
  unfolding write_file_def
  by (auto simp: Let_def differ_at_file_refl differ_at_fileI split: option.splits)

lemma try_as_image_differ: "differ_at_file path w (snd (try_as_image env path p w))"
proof (cases "as_image p")
  case (AsImage img)
  then show ?thesis
    using write_file_differ [of path w env "Some img"]
    by (auto simp: try_as_image_def split: prod.splits option.splits)
qed (simp_all add: try_as_image_def differ_at_file_refl)

lemma raw_save_differ: "differ_at_file path w (snd (raw_save env path d w))"
  by (cases d) (auto simp: raw_save_def write_file_differ differ_at_file_refl split: sum.splits)

lemma save_parts_differ: "differ_at_file path w (snd (save_parts env path ps b w))"
proof (induction ps arbitrary: b w)
  case Nil
  show ?case by (simp add: differ_at_file_refl)
next
  case (Cons p ps)
  show ?case
  proof (cases "inline_data p")
    case None
    then show ?thesis using Cons.IH by simp
  next
    case (Some d)
    obtain ok w1 where t: "try_as_image env path p w = (ok, w1)" by (cases "try_as_image env path p w")
    have d1: "differ_at_file path w w1" using try_as_image_differ [of path w env p] t by simp
    show ?thesis
    proof (cases ok)
      case True
      then show ?thesis using Some t d1 by simp
    next
      case False
      show ?thesis
      proof (cases b)
        case True
        then show ?thesis
          using Some t False differ_at_file_trans [OF d1 Cons.IH [of w1 True]] by simp
      next
        case nb: False
        obtain r w2 where s: "raw_save env path d w1 = (r, w2)" by (cases "raw_save env path d w1")
        have d2: "differ_at_file path w w2"
          using differ_at_file_trans [OF d1 raw_save_differ [of path w1 env d]] s by simp
        show ?thesis
        proof (cases r)
          case None
          then show ?thesis
            using Some t False nb s differ_at_file_trans [OF d2 Cons.IH [of w2 True]] by simp
        next
          case (Some e)
          then show ?thesis using \<open>inline_data p = Some d\<close> t False nb s d2 by simp
        qed
      qed
    qed
  qed
qed

lemma save_response_differ: "differ_at_file path w (snd (save_response env path resp w))"
  by (auto simp: save_response_def differ_at_file_refl save_parts_differ split: option.splits)

section \<open>Anatomy of a task run\<close>

text \<open>The task function of an application is unfolded only where its body is needed.\<close>

declare generate_task.simps [simp del]

lemma request_pil_image:
  "pil_image w' = pil_image w \<Longrightarrow> incity_request bp w' = incity_request bp w"
  "pil_image w' = pil_image w \<Longrightarrow> lyon_request bp w' = lyon_request bp w"
  by (simp_all add: incity_request_def lyon_request_def)

text \<open>
  The four ways a run can go: the client constructor raises, \<open>os.makedirs\<close> raises,
  the generation call raises, or it returns a response that the loop then handles.
\<close>

lemma task_client_error:
  assumes "Client env (strip (api_entry w)) = Some e"
  shows "generate_task a env fn d w = (Returned, log (client_error_message a e) w)"
  using assms by (cases a) (simp_all add: generate_task.simps incity_generate_task_def lyon_generate_task_def)

lemma task_makedirs_error:
  assumes "Client env (strip (api_entry w)) = None" and "makedirs_error env (output_dir a w) = Some e"
  shows "generate_task a env fn d w = (Raised e, log (progress_message a fn) w)"
  using assms
  by (cases a)
     (simp_all add: generate_task.simps incity_generate_task_def lyon_generate_task_def Let_def makedirs_def log_def
        incity_output_dir_def lyon_output_dir_def)

lemma task_call_raises:
  assumes "Client env (strip (api_entry w)) = None" and "makedirs_error env (output_dir a w) = None"
    and "generate_content env (task_request a d w) = Inl e"
  shows "generate_task a env fn d w = (Returned, log (error_message a e) (called a fn d w))"
  using assms
  by (cases a)
     (simp_all add: generate_task.simps incity_generate_task_def lyon_generate_task_def Let_def makedirs_def log_def
        incity_output_dir_def lyon_output_dir_def incity_call_and_save_def lyon_call_and_save_def
        incity_request_def lyon_request_def called_def started_def)

lemma task_call_returns:
  assumes "Client env (strip (api_entry w)) = None" and "makedirs_error env (output_dir a w) = None"
    and "generate_content env (task_request a d w) = Inr resp"
  shows "generate_task a env fn d w =
     (case save_response env (final_path a w fn) resp (called a fn d w) of
        (Inl e, w2) \<Rightarrow> (Returned, log (error_message a e) w2)
      | (Inr image_saved, w2) \<Rightarrow>
          if image_saved then (Returned, log (success_message a fn) w2)
          else (Returned, (log (no_image_message a fn) w2)\<lparr>stdout := stdout w2 @ [resp]\<rparr>))"
  using assms
  by (cases a)
     (auto simp: generate_task.simps incity_generate_task_def lyon_generate_task_def Let_def makedirs_def log_def
        incity_output_dir_def lyon_output_dir_def incity_call_and_save_def lyon_call_and_save_def
        incity_request_def lyon_request_def called_def started_def
        incity_final_path_def lyon_final_path_def split: prod.splits sum.splits)

section \<open>What the loop over the parts stores\<close>

lemma with_file_twice: "with_file fp b (with_file fp c w) = with_file fp b w"
  by (simp add: with_file_def)

lemma with_file_fields:
  "files (with_file fp b w) = (files w)(fp \<mapsto> b)"
  "requests (with_file fp b w) = requests w" "log_box (with_file fp b w) = log_box w"
  "dirs (with_file fp b w) = dirs w" "stdout (with_file fp b w) = stdout w"
  "threads (with_file fp b w) = threads w" "dialogs (with_file fp b w) = dialogs w"
  by (simp_all add: with_file_def)

lemma write_file_ok:
  assumes "open_error env fp = None" and "write_error env fp = None"
  shows "write_file env fp (Some b) w = (None, with_file fp b w)"
  using assms by (simp add: write_file_def with_file_def)



lemma save_parts_saved:
  assumes "open_error env fp = None" and "write_error env fp = None"
  shows "save_parts env fp ps True w =
     (Inr True, case find accessor_works (filter carries_data ps) of
                  Some q \<Rightarrow> with_file fp (the (part_image env q)) w
                | None \<Rightarrow> w)"
proof (induction ps)
  case Nil
  show ?case by simp
next
  case (Cons p ps)
  show ?case
  proof (cases "inline_data p")
    case None
    then show ?thesis using Cons.IH by (simp add: carries_data_def)
  next
    case (Some d)
    then have c: "carries_data p" by (simp add: carries_data_def)
    show ?thesis
    proof (cases "as_image p")
      case (AsImage img)
      then show ?thesis
        using Some c write_file_ok [OF assms]
        by (simp add: try_as_image_def accessor_works_def part_image_def)
    qed (use Some c Cons.IH in \<open>simp_all add: try_as_image_def accessor_works_def\<close>)
  qed
qed

lemma raw_save_ok:
  assumes "open_error env fp = None" and "write_error env fp = None"
    and "inline_data p = Some d" and "raw_image env p = Some b"
  shows "raw_save env fp d w = (None, with_file fp b w)"
  using assms
  by (cases d) (auto simp: raw_save_def raw_image_def write_file_ok split: sum.splits)

lemma save_parts_fallback:
  assumes "open_error env fp = None" and "write_error env fp = None"
    and "inline_data p = Some d" and "\<not> accessor_works p" and "raw_image env p = Some b"
  shows "save_parts env fp (p # qs) False w =
     (Inr True, case find accessor_works (filter carries_data qs) of
                  Some q \<Rightarrow> with_file fp (the (part_image env q)) w
                | None \<Rightarrow> with_file fp b w)"
proof -
  from assms(4) have t: "try_as_image env fp p w = (False, w)"
    by (cases "as_image p") (simp_all add: try_as_image_def accessor_works_def)
  show ?thesis
    using assms(3) t raw_save_ok [OF assms(1,2,3,5), of w]
      save_parts_saved [OF assms(1,2), of qs "with_file fp b w"]
    by (simp add: with_file_twice split: option.splits)
qed

lemma save_parts_unsaved:
  assumes "open_error env fp = None" and "write_error env fp = None"
    and "filter carries_data ps = p # rest" and "part_image env p \<noteq> None"
  shows "stored_image env ps \<noteq> None \<and>
     save_parts env fp ps False w = (Inr True, with_file fp (the (stored_image env ps)) w)"
  using assms(3)
proof (induction ps)
  case Nil
  then show ?case by simp
next
  case (Cons q qs)
  show ?case
  proof (cases "carries_data q")
    case False
    then have f: "filter carries_data qs = p # rest" using Cons.prems by simp
    from False have fq: "filter carries_data (q # qs) = filter carries_data qs" by simp
    have s: "stored_image env (q # qs) = stored_image env qs"
      unfolding stored_image_def fq by (rule refl)
    from False have "inline_data q = None" by (simp add: carries_data_def)
    then have e: "save_parts env fp (q # qs) False w = save_parts env fp qs False w" by simp
    show ?thesis unfolding s e by (rule Cons.IH [OF f])
  next
    case True
    then have q: "q = p" and r: "filter carries_data qs = rest" using Cons.prems by simp_all
    from True obtain d where d: "inline_data p = Some d" by (auto simp: carries_data_def q)
    have fq: "filter carries_data (p # qs) = p # rest" using True q r by simp
    show ?thesis
    proof (cases "accessor_works p")
      case w: True
      then obtain img where img: "as_image p = AsImage img"
        by (cases "as_image p") (simp_all add: accessor_works_def)
      have st: "stored_image env (p # qs) = Some img"
        unfolding stored_image_def fq using w img by (simp add: part_image_def)
      have "save_parts env fp (p # qs) False w = (Inr True, with_file fp img w)"
        using d img write_file_ok [OF assms(1,2)] by (simp add: try_as_image_def)
      with st show ?thesis by (simp add: q)
    next
      case nw: False
      with assms(4) obtain b where b: "raw_image env p = Some b"
        by (cases "as_image p") (auto simp: part_image_def accessor_works_def)
      have st: "stored_image env (p # qs) =
          (case find accessor_works rest of Some q \<Rightarrow> part_image env q | None \<Rightarrow> Some b)"
        unfolding stored_image_def fq using nw b by (simp split: option.splits)
      have pi: "\<And>x. find accessor_works rest = Some x \<Longrightarrow> part_image env x \<noteq> None"
      proof -
        fix x assume "find accessor_works rest = Some x"
        then have "accessor_works x" by (auto simp: find_Some_iff)
        then show "part_image env x \<noteq> None"
          by (cases "as_image x") (simp_all add: accessor_works_def part_image_def)
      qed
      show ?thesis
        unfolding q st save_parts_fallback [OF assms(1,2) d nw b] r
        using pi by (cases "find accessor_works rest") auto
    qed
  qed
qed

lemma save_response_stores:
  assumes "open_error env fp = None" and "write_error env fp = None"
    and "parts resp = Some ps" and "filter carries_data ps = p # rest"
    and "part_image env p \<noteq> None"
  shows "stored_image env ps \<noteq> None \<and>
     save_response env fp resp w = (Inr True, with_file fp (the (stored_image env ps)) w)"
  using save_parts_unsaved [OF assms(1,2,4,5)] assms(3) by (simp add: save_response_def)

section \<open>The background task: properties\<close>

lemma task_requests:
  "requests (snd (generate_task a env fn d w)) = requests w
   \<or> requests (snd (generate_task a env fn d w)) = requests w @ [task_request a d w]"
proof (cases "Client env (strip (api_entry w))")
  case (Some e)
  then show ?thesis by (simp add: task_client_error log_def)
next
  case None
  show ?thesis
  proof (cases "makedirs_error env (output_dir a w)")
    case (Some e)
    then show ?thesis using None by (simp add: task_makedirs_error log_def)
  next
    case m: None
    show ?thesis
    proof (cases "generate_content env (task_request a d w)")
      case (Inl e)
      then show ?thesis using None m by (simp add: task_call_raises log_def called_def)
    next
      case (Inr resp)
      obtain r w2 where s: "save_response env (final_path a w fn) resp (called a fn d w) = (r, w2)"
        by (cases "save_response env (final_path a w fn) resp (called a fn d w)")
      have "differ_at_file (final_path a w fn) (called a fn d w) w2"
        using save_response_differ [of "final_path a w fn" "called a fn d w" env resp] s by simp
      then have "requests w2 = requests w @ [task_request a d w]"
        by (simp add: differ_at_file_fields called_def)
      then show ?thesis
        using None m Inr s by (cases r) (simp_all add: task_call_returns log_def)
    qed
  qed
qed

section \<open>Concrete runs\<close>

lemma good_env_fields:
  "Client good_env k = None" "makedirs_error good_env p = None"
  "open_error good_env p = None" "write_error good_env p = None"
  "generate_content good_env r = Inr \<lparr>parts = Some [text_part, image_part]\<rparr>"
  by (simp_all add: good_env_def)

lemma good_run:
  "generate_task a good_env fn d ready_world =
     (Returned, log (success_message a fn)
        (with_file (final_path a ready_world fn) [0x89, 0x50, 0x4E, 0x47] (called a fn d ready_world)))"
proof -
  have c: "filter carries_data [text_part, image_part] = [image_part]"
    by (simp add: carries_data_def text_part_def image_part_def)
  have i: "part_image good_env image_part \<noteq> None"
    by (simp add: part_image_def raw_image_def image_part_def)
  have st: "stored_image good_env [text_part, image_part] = Some [0x89, 0x50, 0x4E, 0x47]"
    unfolding stored_image_def c
    by (simp add: accessor_works_def raw_image_def image_part_def)
  have "save_response good_env (final_path a ready_world fn) \<lparr>parts = Some [text_part, image_part]\<rparr>
          (called a fn d ready_world)
        = (Inr True, with_file (final_path a ready_world fn) [0x89, 0x50, 0x4E, 0x47] (called a fn d ready_world))"
    using save_response_stores [OF good_env_fields(3,4) _ c i] st by simp
  then show ?thesis
    using task_call_returns [OF good_env_fields(1,2,5)] by simp
qed


lemma refused_key_run:
  "generate_task a refused_key_env fn d ready_world =
     (Returned, log (client_error_message a (py ''invalid key'')) ready_world)"
  by (rule task_client_error) (simp add: refused_key_env_def good_env_def)

lemma no_mkdir_run:
  "generate_task a no_mkdir_env fn d ready_world =
     (Raised (py ''[Errno 13] Permission denied''), log (progress_message a fn) ready_world)"
  by (rule task_makedirs_error) (simp_all add: no_mkdir_env_def good_env_def)

lemma no_open_run:
  "generate_task a no_open_env fn d ready_world =
     (Returned, log (error_message a (py ''[Errno 13] Permission denied'')) (called a fn d ready_world))"
proof -
  have f: "Client no_open_env (strip (api_entry ready_world)) = None"
    "makedirs_error no_open_env (output_dir a ready_world) = None"
    "generate_content no_open_env (task_request a d ready_world) = Inr \<lparr>parts = Some [text_part, image_part]\<rparr>"
    by (simp_all add: no_open_env_def good_env_def)
  have "save_response no_open_env (final_path a ready_world fn) \<lparr>parts = Some [text_part, image_part]\<rparr>
          (called a fn d ready_world)
        = (Inl (py ''[Errno 13] Permission denied''), called a fn d ready_world)"
    by (simp add: save_response_def text_part_def image_part_def try_as_image_def raw_save_def
        write_file_def no_open_env_def good_env_def)
  then show ?thesis using task_call_returns [OF f] by simp
qed

lemma base64_run:
  "generate_task a base64_env fn d ready_world =
     (Returned, log (success_message a fn)
        (with_file (final_path a ready_world fn) [0x68, 0x69] (called a fn d ready_world)))"
proof -
  have f: "Client base64_env (strip (api_entry ready_world)) = None"
    "makedirs_error base64_env (output_dir a ready_world) = None"
    "generate_content base64_env (task_request a d ready_world) = Inr \<lparr>parts = Some [text_part, base64_part]\<rparr>"
    and o: "open_error base64_env (final_path a ready_world fn) = None"
    "write_error base64_env (final_path a ready_world fn) = None"
    by (simp_all add: base64_env_def good_env_def)
  have c: "filter carries_data [text_part, base64_part] = [base64_part]"
    by (simp add: carries_data_def text_part_def base64_part_def)
  have r: "raw_image base64_env base64_part = Some [0x68, 0x69]"
    by (simp add: raw_image_def base64_part_def base64_env_def good_env_def)
  have i: "part_image base64_env base64_part \<noteq> None"
    using r by (simp add: part_image_def base64_part_def)
  have st: "stored_image base64_env [text_part, base64_part] = Some [0x68, 0x69]"
    unfolding stored_image_def c using r by (simp add: accessor_works_def base64_part_def)
  have "save_response base64_env (final_path a ready_world fn) \<lparr>parts = Some [text_part, base64_part]\<rparr>
          (called a fn d ready_world)
        = (Inr True, with_file (final_path a ready_world fn) [0x68, 0x69] (called a fn d ready_world))"
    using save_response_stores [OF o _ c i] st by simp
  then show ?thesis using task_call_returns [OF f] by simp
qed

lemma ready_world_fields:
  "requests ready_world = []" "log_box ready_world = []" "files ready_world = Map.empty"
  "dirs ready_world = {py ''/home/user''}" "cwd ready_world = py ''/home/user''"
  "threads ready_world = []" "dialogs ready_world = []" "stdout ready_world = []"
  by (simp_all add: ready_world_def fresh_world_def)

lemma called_fields:
  "requests (called a fn d w) = requests w @ [task_request a d w]"
  "log_box (called a fn d w) = log_box w @ [entry (progress_message a fn)]"
  "dirs (called a fn d w) = insert (output_dir a w) (dirs w)"
  "files (called a fn d w) = files w"
  "stdout (called a fn d w) = stdout w"
  by (simp_all add: called_def started_def log_def entry_def)

lemma log_fields:
  "requests (log m w) = requests w" "log_box (log m w) = log_box w @ [entry m]"
  "dirs (log m w) = dirs w" "files (log m w) = files w" "stdout (log m w) = stdout w"
  by (simp_all add: log_def entry_def)

text \<open>
  Claim C1. Whatever fragment is substituted, the prompt of the request a task submits
  is the fixed opening sentence, the fragment, and then the fixed preservation
  sentences: the preservation text closes every composed prompt, so each required
  clause (keep the same geometry, camera angle and style) occurs in it. This holds for
  both templates, and a task submits no other request.
\<close>

theorem composed_prompt_has_preservation_clauses:
  "(requests (snd (generate_task a env filename d w)) = requests w
      \<or> requests (snd (generate_task a env filename d w)) = requests w @ [task_request a d w])
   \<and> contents_prompt (task_request a d w) = base_prompt a d
   \<and> base_prompt a d = intro a @ d @ py ''. '' @ preservation a
   \<and> prefix (intro a) (base_prompt a d)
   \<and> suffix (preservation a) (base_prompt a d)
   \<and> (\<forall>c\<in>set required_clauses. sublist c (base_prompt a d))"
proof -
  have shape: "base_prompt a d = intro a @ d @ py ''. '' @ preservation a"
    by (cases a) (simp_all add: incity_base_prompt_shape lyon_base_prompt_shape)
  have cl: "\<forall>c\<in>set required_clauses. sublist c (preservation a)"
    by (cases a) (simp_all add: incity_preservation_clauses lyon_preservation_clauses)
  have "\<forall>c\<in>set required_clauses. sublist c (base_prompt a d)"
  proof
    fix c assume "c \<in> set required_clauses"
    with cl have "sublist c (preservation a)" by blast
    then have "sublist c ((intro a @ d @ py ''. '') @ preservation a)" by (rule sublist_in_suffix)
    then show "sublist c (base_prompt a d)" by (simp add: shape)
  qed
  moreover have "contents_prompt (task_request a d w) = base_prompt a d"
    by (cases a) (simp_all add: incity_request_def lyon_request_def)
  moreover have "suffix (preservation a) (base_prompt a d)"
    unfolding shape suffix_def by (rule exI [of _ "intro a @ d @ py ''. ''"]) simp
  moreover have "prefix (intro a) (base_prompt a d)" by (simp add: shape)
  ultimately show ?thesis using task_requests shape by blast
qed

theorem composed_prompt_has_preservation_clauses_witness:
  "requests (snd (generate_task Incity good_env (py ''incity_clear_day.png'') (py ''Bright sunny midday'') ready_world))
     = [task_request Incity (py ''Bright sunny midday'') ready_world]
   \<and> suffix incity_preservation (contents_prompt (task_request Incity (py ''Bright sunny midday'') ready_world))
   \<and> sublist (py ''geometry'') (lyon_base_prompt (py ''summer, blue sky''))
   \<and> sublist (py ''camera angle'') (lyon_base_prompt (py ''summer, blue sky''))
   \<and> sublist (py ''style'') (lyon_base_prompt (py ''summer, blue sky''))"
proof -
  have r: "requests (snd (generate_task Incity good_env (py ''incity_clear_day.png'') (py ''Bright sunny midday'') ready_world))
     = [task_request Incity (py ''Bright sunny midday'') ready_world]"
    by (simp add: good_run log_fields with_file_fields called_fields ready_world_fields)
  have c: "contents_prompt (task_request Incity (py ''Bright sunny midday'') ready_world)
      = incity_base_prompt (py ''Bright sunny midday'')"
    by (simp add: incity_request_def)
  from composed_prompt_has_preservation_clauses
    [of Incity good_env "py ''incity_clear_day.png''" "py ''Bright sunny midday''" ready_world]
  have s: "suffix (preservation Incity) (base_prompt Incity (py ''Bright sunny midday''))" by blast
  from composed_prompt_has_preservation_clauses
    [of Lyon good_env "py ''x.png''" "py ''summer, blue sky''" ready_world]
  have l: "\<forall>c\<in>set required_clauses. sublist c (base_prompt Lyon (py ''summer, blue sky''))" by blast
  show ?thesis using r c s l by (simp add: required_clauses_def)
qed

section \<open>Failed calls\<close>

lemma new_log_append: "log_box w' = log_box w @ ls \<Longrightarrow> new_log w w' = ls"
  by (simp add: new_log_def)








section \<open>Exceptions that leave the task\<close>

lemma task_outcome:
  "fst (generate_task a env fn d w) = Returned
   \<or> (\<exists>e. Client env (strip (api_entry w)) = None \<and> makedirs_error env (output_dir a w) = Some e
          \<and> fst (generate_task a env fn d w) = Raised e)"
proof (cases "Client env (strip (api_entry w))")
  case (Some e)
  then show ?thesis by (simp add: task_client_error)
next
  case None
  show ?thesis
  proof (cases "makedirs_error env (output_dir a w)")
    case (Some e)
    then show ?thesis using None by (simp add: task_makedirs_error)
  next
    case m: None
    show ?thesis
    proof (cases "generate_content env (task_request a d w)")
      case (Inl e)
      then show ?thesis using None m by (simp add: task_call_raises)
    next
      case (Inr resp)
      then show ?thesis
        using None m by (simp add: task_call_returns split: prod.splits sum.splits)
    qed
  qed
qed

text \<open>
  Claim C6 fails where \<open>os.makedirs\<close> raises: that call stands between the two
  \<open>try\<close> blocks, so its exception leaves \<open>generate_task\<close>, and the run has logged
  the progress entry only. Evaluated for both applications on a file system that
  denies the creation of the output directory.
\<close>

theorem makedirs_failure_leaves_task:
  "makedirs_error no_mkdir_env (output_dir Incity ready_world) = Some (py ''[Errno 13] Permission denied'')
   \<and> fst (generate_task Incity no_mkdir_env (py ''incity_clear_day.png'') (py ''Bright sunny midday'') ready_world)
       = Raised (py ''[Errno 13] Permission denied'')
   \<and> new_log ready_world (snd (generate_task Incity no_mkdir_env (py ''incity_clear_day.png'') (py ''Bright sunny midday'') ready_world))
       = [entry (progress_message Incity (py ''incity_clear_day.png''))]
   \<and> fst (generate_task Lyon no_mkdir_env (py ''A_summer_day.png'') (py ''summer, blue sky'') ready_world)
       = Raised (py ''[Errno 13] Permission denied'')
   \<and> new_log ready_world (snd (generate_task Lyon no_mkdir_env (py ''A_summer_day.png'') (py ''summer, blue sky'') ready_world))
       = [entry (progress_message Lyon (py ''A_summer_day.png''))]"
proof -
  have m: "makedirs_error no_mkdir_env (output_dir Incity ready_world) = Some (py ''[Errno 13] Permission denied'')"
    by (simp add: no_mkdir_env_def good_env_def)
  show ?thesis
    using m by (simp add: no_mkdir_run new_log_def log_fields ready_world_fields)
qed

section \<open>The output directory\<close>

lemma task_dirs:
  "dirs (snd (generate_task a env fn d w)) =
     (if Client env (strip (api_entry w)) = None \<and> makedirs_error env (output_dir a w) = None
      then insert (output_dir a w) (dirs w) else dirs w)"
proof (cases "Client env (strip (api_entry w))")
  case (Some e)
  then show ?thesis by (simp add: task_client_error log_fields)
next
  case None
  show ?thesis
  proof (cases "makedirs_error env (output_dir a w)")
    case (Some e)
    then show ?thesis using None by (simp add: task_makedirs_error log_fields)
  next
    case m: None
    show ?thesis
    proof (cases "generate_content env (task_request a d w)")
      case (Inl e)
      then show ?thesis using None m by (simp add: task_call_raises log_fields called_fields)
    next
      case (Inr resp)
      obtain r w2 where s: "save_response env (final_path a w fn) resp (called a fn d w) = (r, w2)"
        by (cases "save_response env (final_path a w fn) resp (called a fn d w)")
      have "differ_at_file (final_path a w fn) (called a fn d w) w2"
        using save_response_differ [of "final_path a w fn" "called a fn d w" env resp] s by simp
      then have "dirs w2 = insert (output_dir a w) (dirs w)"
        by (simp add: differ_at_file_fields called_fields)
      then show ?thesis
        using None m Inr s by (cases r) (simp_all add: task_call_returns log_fields)
    qed
  qed
qed

lemma task_requests_changed:
  assumes "requests (snd (generate_task a env fn d w)) \<noteq> requests w"
  shows "Client env (strip (api_entry w)) = None \<and> makedirs_error env (output_dir a w) = None"
proof (cases "Client env (strip (api_entry w))")
  case (Some e)
  then show ?thesis using assms by (simp add: task_client_error log_fields)
next
  case None
  show ?thesis
  proof (cases "makedirs_error env (output_dir a w)")
    case (Some e)
    then show ?thesis using None assms by (simp add: task_makedirs_error log_fields)
  next
    case m: None
    then show ?thesis using None by simp
  qed
qed

text \<open>
  Claim C9, as amended. A task whose client construction succeeds creates the output
  directory before it calls the service: when the creation succeeds the directory
  exists after the run, whatever the call does (it may raise or return no image), a run
  that submitted a request always has the directory, and no run removes a directory.
  A task whose client construction fails returns before creating anything.
\<close>

theorem output_directory_created_after_client:
  "(Client env (strip (api_entry w)) = None \<and> makedirs_error env (output_dir a w) = None
      \<longrightarrow> output_dir a w \<in> dirs (snd (generate_task a env filename d w)))
   \<and> (requests (snd (generate_task a env filename d w)) \<noteq> requests w
      \<longrightarrow> output_dir a w \<in> dirs (snd (generate_task a env filename d w)))
   \<and> dirs w \<subseteq> dirs (snd (generate_task a env filename d w))
   \<and> (Client env (strip (api_entry w)) \<noteq> None
      \<longrightarrow> dirs (snd (generate_task a env filename d w)) = dirs w)"
  using task_requests_changed [of a env filename d w]
  by (auto simp: task_dirs)

theorem output_directory_created_after_client_witness:
  "Client timeout_env (strip (api_entry ready_world)) = None
   \<and> makedirs_error timeout_env (output_dir Incity ready_world) = None
   \<and> generate_content timeout_env (task_request Incity (py ''Bright sunny midday'') ready_world) = Inl (py ''timeout'')
   \<and> output_dir Incity ready_world \<notin> dirs ready_world
   \<and> output_dir Incity ready_world
       \<in> dirs (snd (generate_task Incity timeout_env (py ''incity_clear_day.png'') (py ''Bright sunny midday'') ready_world))
   \<and> Client refused_key_env (strip (api_entry ready_world)) \<noteq> None
   \<and> dirs (snd (generate_task Lyon refused_key_env (py ''A_summer_day.png'') (py ''summer, blue sky'') ready_world))
       = dirs ready_world"
proof -
  have a: "Client timeout_env (strip (api_entry ready_world)) = None"
    and b: "makedirs_error timeout_env (output_dir Incity ready_world) = None"
    and c: "generate_content timeout_env (task_request Incity (py ''Bright sunny midday'') ready_world) = Inl (py ''timeout'')"
    by (simp_all add: timeout_env_def good_env_def)
  have n: "output_dir Incity ready_world \<notin> dirs ready_world"
    by (simp add: ready_world_fields incity_output_dir_def path_join_def py_def)
  have r: "Client refused_key_env (strip (api_entry ready_world)) \<noteq> None"
    by (simp add: refused_key_env_def good_env_def)
  show ?thesis
    using a b c n r
      output_directory_created_after_client [of timeout_env ready_world Incity "py ''incity_clear_day.png''" "py ''Bright sunny midday''"]
      output_directory_created_after_client [of refused_key_env ready_world Lyon "py ''A_summer_day.png''" "py ''summer, blue sky''"]
    by simp
qed

text \<open>
  Claim C9 as stated fails for a run whose client construction raises: the task logs
  the error and returns, and the output directory, absent before, is absent after.
\<close>

theorem no_directory_without_client_counterexample:
  "output_dir Incity ready_world \<notin> dirs ready_world
   \<and> fst (generate_task Incity refused_key_env (py ''incity_clear_day.png'') (py ''Bright sunny midday'') ready_world) = Returned
   \<and> output_dir Incity ready_world
       \<notin> dirs (snd (generate_task Incity refused_key_env (py ''incity_clear_day.png'') (py ''Bright sunny midday'') ready_world))"
  by (simp add: refused_key_run log_fields ready_world_fields incity_output_dir_def path_join_def py_def)

section \<open>Stored images\<close>

lemma output_dir_last: "output_dir a w \<noteq> [] \<and> last (output_dir a w) \<noteq> 0x2F"
  by (cases a) (simp_all add: incity_output_dir_def lyon_output_dir_def path_join_def py_def)

lemma final_path_relative:
  assumes "filename = [] \<or> hd filename \<noteq> 0x2F"
  shows "final_path a w filename = output_dir a w @ [0x2F] @ filename"
proof -
  have "path_join (output_dir a w) filename = output_dir a w @ [0x2F] @ filename"
    using assms output_dir_last [of a w] by (auto simp: path_join_def)
  then show ?thesis by (cases a) (simp_all add: incity_final_path_def lyon_final_path_def)
qed

lemma task_stores:
  assumes "Client env (strip (api_entry w)) = None"
    and "makedirs_error env (output_dir a w) = None"
    and "generate_content env (task_request a d w) = Inr resp"
    and "parts resp = Some ps"
    and "filter carries_data ps = p # rest"
    and "part_image env p \<noteq> None"
    and "open_error env (final_path a w fn) = None"
    and "write_error env (final_path a w fn) = None"
  shows "\<exists>c. stored_image env ps = Some c \<and>
     generate_task a env fn d w =
       (Returned, log (success_message a fn) (with_file (final_path a w fn) c (called a fn d w)))"
proof -
  from save_response_stores [OF assms(7,8,4,5,6), of "called a fn d w"]
  obtain c where c: "stored_image env ps = Some c"
    and s: "save_response env (final_path a w fn) resp (called a fn d w)
            = (Inr True, with_file (final_path a w fn) c (called a fn d w))"
    by auto
  show ?thesis using c task_call_returns [OF assms(1,2,3), of fn] s by simp
qed

text \<open>
  Claim C4, as amended. When the generation call returns a response with a
  data-carrying part, the first such part yields a byte sequence, and the file at the
  task's output path can be opened and written, the task stores the image of the
  response in exactly that file, \<open>output directory / filename\<close>, changes no other file
  and logs the success entry after the progress entry. The image is what the accessor
  saves for the first data-carrying part whose accessor works and, when no accessor
  works, the inline data of the first data-carrying part, decoded when it is text.
\<close>

theorem returned_image_stored_at_task_path:
  assumes "Client env (strip (api_entry w)) = None"
    and "makedirs_error env (output_dir a w) = None"
    and "generate_content env (task_request a d w) = Inr resp"
    and "parts resp = Some ps"
    and "filter carries_data ps = p # rest"
    and "part_image env p \<noteq> None"
    and "open_error env (final_path a w filename) = None"
    and "write_error env (final_path a w filename) = None"
  shows "\<exists>c. stored_image env ps = Some c
       \<and> fst (generate_task a env filename d w) = Returned
       \<and> files (snd (generate_task a env filename d w)) = (files w)(final_path a w filename \<mapsto> c)
       \<and> new_log w (snd (generate_task a env filename d w))
           = [entry (progress_message a filename), entry (success_message a filename)]
       \<and> (accessor_works p \<or> rest = [] \<longrightarrow> part_image env p = Some c)
       \<and> (filename = [] \<or> hd filename \<noteq> 0x2F
            \<longrightarrow> final_path a w filename = output_dir a w @ [0x2F] @ filename)"
proof -
  from task_stores [OF assms]
  obtain c where c: "stored_image env ps = Some c"
    and g: "generate_task a env filename d w =
       (Returned, log (success_message a filename) (with_file (final_path a w filename) c (called a filename d w)))"
    by blast
  have l: "log_box (snd (generate_task a env filename d w))
      = log_box w @ [entry (progress_message a filename), entry (success_message a filename)]"
    by (simp add: g log_fields with_file_fields called_fields)
  have f: "files (snd (generate_task a env filename d w)) = (files w)(final_path a w filename \<mapsto> c)"
    by (simp add: g log_fields with_file_fields called_fields)
  have i: "accessor_works p \<or> rest = [] \<longrightarrow> part_image env p = Some c"
  proof
    assume h: "accessor_works p \<or> rest = []"
    have "stored_image env ps = part_image env p"
    proof (cases "accessor_works p")
      case True
      then show ?thesis unfolding stored_image_def assms(5) by simp
    next
      case False
      with h have "rest = []" by simp
      with False show ?thesis
        unfolding stored_image_def assms(5)
        by (cases "as_image p") (simp_all add: part_image_def accessor_works_def)
    qed
    with c show "part_image env p = Some c" by simp
  qed
  show ?thesis
    using c g f i new_log_append [OF l] final_path_relative [of filename a w] by auto
qed

theorem returned_image_stored_at_task_path_witness:
  "Client good_env (strip (api_entry ready_world)) = None
   \<and> makedirs_error good_env (output_dir Incity ready_world) = None
   \<and> generate_content good_env (task_request Incity (py ''Bright sunny midday'') ready_world)
       = Inr \<lparr>parts = Some [text_part, image_part]\<rparr>
   \<and> filter carries_data [text_part, image_part] = [image_part]
   \<and> part_image good_env image_part = Some [0x89, 0x50, 0x4E, 0x47]
   \<and> open_error good_env (final_path Incity ready_world (py ''incity_clear_day.png'')) = None
   \<and> write_error good_env (final_path Incity ready_world (py ''incity_clear_day.png'')) = None
   \<and> final_path Incity ready_world (py ''incity_clear_day.png'') = py ''/home/user/output_incity/incity_clear_day.png''
   \<and> files (snd (generate_task Incity good_env (py ''incity_clear_day.png'') (py ''Bright sunny midday'') ready_world))
       = [py ''/home/user/output_incity/incity_clear_day.png'' \<mapsto> [0x89, 0x50, 0x4E, 0x47]]"
proof -
  have c: "filter carries_data [text_part, image_part] = [image_part]"
    by (simp add: carries_data_def text_part_def image_part_def)
  have i: "part_image good_env image_part = Some [0x89, 0x50, 0x4E, 0x47]"
    by (simp add: part_image_def raw_image_def image_part_def)
  then have i': "part_image good_env image_part \<noteq> None" by simp
  have p: "parts \<lparr>parts = Some [text_part, image_part]\<rparr> = Some [text_part, image_part]" by simp
  have fp: "final_path Incity ready_world (py ''incity_clear_day.png'') = py ''/home/user/output_incity/incity_clear_day.png''"
    by (simp add: incity_final_path_def incity_output_dir_def path_join_def ready_world_fields py_def)
  have h1: "Client good_env (strip (api_entry ready_world)) = None"
    and h2: "makedirs_error good_env (output_dir Incity ready_world) = None"
    and h3: "generate_content good_env (task_request Incity (py ''Bright sunny midday'') ready_world)
       = Inr \<lparr>parts = Some [text_part, image_part]\<rparr>"
    and h7: "open_error good_env (final_path Incity ready_world (py ''incity_clear_day.png'')) = None"
    and h8: "write_error good_env (final_path Incity ready_world (py ''incity_clear_day.png'')) = None"
    by (simp_all add: good_env_fields)
  from returned_image_stored_at_task_path [OF h1 h2 h3 p c i' h7 h8]
  obtain x where x: "part_image good_env image_part = Some x"
    and f: "files (snd (generate_task Incity good_env (py ''incity_clear_day.png'') (py ''Bright sunny midday'') ready_world))
        = (files ready_world)(final_path Incity ready_world (py ''incity_clear_day.png'') \<mapsto> x)"
    by auto
  from x i have "x = [0x89, 0x50, 0x4E, 0x47]" by simp
  with f fp c i h1 h2 h3 h7 h8 show ?thesis by (simp add: ready_world_fields)
qed

text \<open>
  Claim C4 as stated fails when the file cannot be opened: the service returned a part
  with inline bytes, yet the run ends with no file at all and the error logged.
\<close>

theorem image_returned_but_not_written_counterexample:
  "generate_content no_open_env (task_request Incity (py ''Bright sunny midday'') ready_world)
     = Inr \<lparr>parts = Some [text_part, image_part]\<rparr>
   \<and> inline_data image_part = Some (Bytes [0x89, 0x50, 0x4E, 0x47])
   \<and> fst (generate_task Incity no_open_env (py ''incity_clear_day.png'') (py ''Bright sunny midday'') ready_world) = Returned
   \<and> dom (files (snd (generate_task Incity no_open_env (py ''incity_clear_day.png'') (py ''Bright sunny midday'') ready_world))) = {}"
proof -
  have g: "generate_content no_open_env (task_request Incity (py ''Bright sunny midday'') ready_world)
     = Inr \<lparr>parts = Some [text_part, image_part]\<rparr>"
    by (simp add: no_open_env_def good_env_def)
  show ?thesis
    using g by (simp add: no_open_run log_fields called_fields ready_world_fields image_part_def)
qed

section \<open>The raw-save fallback\<close>

lemma stored_image_fallback:
  assumes "filter carries_data ps = p # rest" and "list_all (\<lambda>q. \<not> accessor_works q) (p # rest)"
  shows "stored_image env ps = raw_image env p"
proof -
  from assms(2) have "find accessor_works (p # rest) = None"
    by (simp add: find_None_iff list_all_iff)
  then show ?thesis unfolding stored_image_def assms(1) by simp
qed

lemma part_image_fallback: "\<not> accessor_works p \<Longrightarrow> part_image env p = raw_image env p"
  by (cases "as_image p") (simp_all add: part_image_def accessor_works_def)

lemma save_parts_decode_fails:
  assumes "filter carries_data ps = p # rest" and "\<not> accessor_works p"
    and "inline_data p = Some (Str s)" and "b64decode env s = Inl e"
  shows "save_parts env fp ps False w = (Inl e, w)"
  using assms(1)
proof (induction ps)
  case Nil
  then show ?case by simp
next
  case (Cons q qs)
  show ?case
  proof (cases "carries_data q")
    case False
    then have f: "filter carries_data qs = p # rest" using Cons.prems by simp
    from False have "inline_data q = None" by (simp add: carries_data_def)
    then show ?thesis using Cons.IH [OF f] by simp
  next
    case True
    then have q: "q = p" using Cons.prems by simp
    from assms(2) have t: "try_as_image env fp p w = (False, w)"
      by (cases "as_image p") (simp_all add: try_as_image_def accessor_works_def)
    show ?thesis using q t assms(3,4) by (simp add: raw_save_def)
  qed
qed

text \<open>
  Claim C10. In the fallback, that is when the image accessor is missing or raises for
  the data-carrying parts of the response, the file receives the inline data of the first
  data-carrying part: unchanged when it is a byte sequence, and the result of
  \<open>base64.b64decode\<close> when it is a text string. Decoding comes before the write: when
  it raises, the file is not touched and the error is logged.
\<close>

theorem raw_save_decodes_text_and_keeps_bytes:
  assumes "Client env (strip (api_entry w)) = None"
    and "makedirs_error env (output_dir a w) = None"
    and "generate_content env (task_request a d w) = Inr resp"
    and "parts resp = Some ps"
    and "filter carries_data ps = p # rest"
    and "list_all (\<lambda>q. \<not> accessor_works q) (p # rest)"
    and "open_error env (final_path a w filename) = None"
    and "write_error env (final_path a w filename) = None"
  shows "(inline_data p = Some (Bytes b) \<longrightarrow>
            files (snd (generate_task a env filename d w)) = (files w)(final_path a w filename \<mapsto> b))
       \<and> (inline_data p = Some (Str s) \<and> b64decode env s = Inr b \<longrightarrow>
            files (snd (generate_task a env filename d w)) = (files w)(final_path a w filename \<mapsto> b))
       \<and> (inline_data p = Some (Str s) \<and> b64decode env s = Inl e \<longrightarrow>
            files (snd (generate_task a env filename d w)) = files w
            \<and> new_log w (snd (generate_task a env filename d w))
                = [entry (progress_message a filename), entry (error_message a e)])"
proof -
  from assms(6) have na: "\<not> accessor_works p" by simp
  have stored: "files (snd (generate_task a env filename d w)) = (files w)(final_path a w filename \<mapsto> c)"
    if r: "raw_image env p = Some c" for c
  proof -
    have i: "part_image env p \<noteq> None" using r na by (simp add: part_image_fallback)
    from task_stores [OF assms(1,2,3,4,5) i assms(7,8)]
    obtain c' where c': "stored_image env ps = Some c'"
      and g: "generate_task a env filename d w =
         (Returned, log (success_message a filename) (with_file (final_path a w filename) c' (called a filename d w)))"
      by blast
    from c' r have "c' = c" by (simp add: stored_image_fallback [OF assms(5,6)])
    then show ?thesis by (simp add: g log_fields with_file_fields called_fields)
  qed
  have kept: "inline_data p = Some (Bytes b) \<longrightarrow>
            files (snd (generate_task a env filename d w)) = (files w)(final_path a w filename \<mapsto> b)"
  proof
    assume "inline_data p = Some (Bytes b)"
    then have "raw_image env p = Some b" by (simp add: raw_image_def)
    then show "files (snd (generate_task a env filename d w)) = (files w)(final_path a w filename \<mapsto> b)"
      by (rule stored)
  qed
  have decoded: "inline_data p = Some (Str s) \<and> b64decode env s = Inr b \<longrightarrow>
            files (snd (generate_task a env filename d w)) = (files w)(final_path a w filename \<mapsto> b)"
  proof
    assume "inline_data p = Some (Str s) \<and> b64decode env s = Inr b"
    then have "raw_image env p = Some b" by (simp add: raw_image_def)
    then show "files (snd (generate_task a env filename d w)) = (files w)(final_path a w filename \<mapsto> b)"
      by (rule stored)
  qed
  have refused: "inline_data p = Some (Str s) \<and> b64decode env s = Inl e \<longrightarrow>
            files (snd (generate_task a env filename d w)) = files w
            \<and> new_log w (snd (generate_task a env filename d w))
                = [entry (progress_message a filename), entry (error_message a e)]"
  proof
    assume h: "inline_data p = Some (Str s) \<and> b64decode env s = Inl e"
    then have "save_parts env (final_path a w filename) ps False (called a filename d w)
        = (Inl e, called a filename d w)"
      using save_parts_decode_fails [OF assms(5) na] by simp
    then have g: "generate_task a env filename d w
        = (Returned, log (error_message a e) (called a filename d w))"
      using task_call_returns [OF assms(1,2,3), of filename] assms(4)
      by (simp add: save_response_def)
    have l: "log_box (snd (generate_task a env filename d w))
        = log_box w @ [entry (progress_message a filename), entry (error_message a e)]"
      by (simp add: g log_fields called_fields)
    show "files (snd (generate_task a env filename d w)) = files w
            \<and> new_log w (snd (generate_task a env filename d w))
                = [entry (progress_message a filename), entry (error_message a e)]"
      using new_log_append [OF l] by (simp add: g log_fields called_fields)
  qed
  from kept decoded refused show ?thesis by blast
qed

theorem raw_save_decodes_text_and_keeps_bytes_witness:
  "Client base64_env (strip (api_entry ready_world)) = None
   \<and> makedirs_error base64_env (output_dir Lyon ready_world) = None
   \<and> generate_content base64_env (task_request Lyon (py ''summer, blue sky'') ready_world)
       = Inr \<lparr>parts = Some [text_part, base64_part]\<rparr>
   \<and> filter carries_data [text_part, base64_part] = [base64_part]
   \<and> list_all (\<lambda>q. \<not> accessor_works q) [base64_part]
   \<and> open_error base64_env (final_path Lyon ready_world (py ''A_summer_day.png'')) = None
   \<and> write_error base64_env (final_path Lyon ready_world (py ''A_summer_day.png'')) = None
   \<and> inline_data base64_part = Some (Str (py ''aGk=''))
   \<and> b64decode base64_env (py ''aGk='') = Inr [0x68, 0x69]
   \<and> files (snd (generate_task Lyon base64_env (py ''A_summer_day.png'') (py ''summer, blue sky'') ready_world))
       = [final_path Lyon ready_world (py ''A_summer_day.png'') \<mapsto> [0x68, 0x69]]"
proof -
  have h1: "Client base64_env (strip (api_entry ready_world)) = None"
    and h2: "makedirs_error base64_env (output_dir Lyon ready_world) = None"
    and h3: "generate_content base64_env (task_request Lyon (py ''summer, blue sky'') ready_world)
       = Inr \<lparr>parts = Some [text_part, base64_part]\<rparr>"
    and h7: "open_error base64_env (final_path Lyon ready_world (py ''A_summer_day.png'')) = None"
    and h8: "write_error base64_env (final_path Lyon ready_world (py ''A_summer_day.png'')) = None"
    and dec: "b64decode base64_env (py ''aGk='') = Inr [0x68, 0x69]"
    by (simp_all add: base64_env_def good_env_def)
  have p: "parts \<lparr>parts = Some [text_part, base64_part]\<rparr> = Some [text_part, base64_part]" by simp
  have c: "filter carries_data [text_part, base64_part] = [base64_part]"
    by (simp add: carries_data_def text_part_def base64_part_def)
  have n: "list_all (\<lambda>q. \<not> accessor_works q) [base64_part]"
    by (simp add: accessor_works_def base64_part_def)
  have i: "inline_data base64_part = Some (Str (py ''aGk=''))" by (simp add: base64_part_def)
  from raw_save_decodes_text_and_keeps_bytes [OF h1 h2 h3 p c n h7 h8, of _ "py ''aGk=''" "[0x68, 0x69]"] i dec
  have "files (snd (generate_task Lyon base64_env (py ''A_summer_day.png'') (py ''summer, blue sky'') ready_world))
       = (files ready_world)(final_path Lyon ready_world (py ''A_summer_day.png'') \<mapsto> [0x68, 0x69])"
    by blast
  then show ?thesis using h1 h2 h3 h7 h8 dec c n i by (simp add: ready_world_fields)
qed

end
